theory Spec2Isabelle
  imports Complex_Main
begin

section \<open>Conventions\<close>

text \<open>
  The attentiveness monitor is a Python program.  Its floats (time stamps read from
  \<^verbatim>\<open>time.time()\<close>, the eye and mouth ratios) are modelled as \<^typ>\<open>real\<close>, its
  unbounded integers as \<^typ>\<open>int\<close>, its status strings as \<^typ>\<open>string\<close>.  Every
  method of a class becomes a function that takes the instance as a record and returns
  the updated record.  A read of the clock inside a method becomes a parameter of the
  function (named \<open>now\<close>), so that two reads within one frame may differ.
\<close>

section \<open>Face presence (utils/face\_presence.py)\<close>

record face_presence =
  short_absence_threshold :: real
  long_absence_threshold :: real
  face_lost_time :: "real option"
  last_face_detected_time :: real

text \<open>The constructor with its default thresholds; \<open>now\<close> is its clock read.\<close>

definition init_face_presence :: "real \<Rightarrow> face_presence" where
  "init_face_presence now =
     \<lparr>short_absence_threshold = 3, long_absence_threshold = 10,
      face_lost_time = None, last_face_detected_time = now\<rparr>"

text \<open>\<^verbatim>\<open>_handle_no_face\<close>: start the absence timer if it is not running, then classify
  the absence duration, the long threshold first.\<close>

definition handle_no_face :: "real \<Rightarrow> face_presence \<Rightarrow> string \<times> face_presence" where
  "handle_no_face now d =
     (let d1 = (if face_lost_time d = None then d\<lparr>face_lost_time := Some now\<rparr> else d);
          absence_duration = now - the (face_lost_time d1)
      in if absence_duration \<ge> long_absence_threshold d1 then (''Not Awake'', d1)
         else if absence_duration \<ge> short_absence_threshold d1
              then (''Inactive (Face Missing)'', d1)
         else (''Active'', d1))"

text \<open>\<^verbatim>\<open>check_face_presence\<close>.  The image is \<open>None\<close> (Python's \<^verbatim>\<open>None\<close>) or
  \<open>Some n\<close>, an image in which the face detector (a black box) reports \<open>n\<close>
  detections.\<close>

definition check_face_presence ::
    "real \<Rightarrow> nat option \<Rightarrow> face_presence \<Rightarrow> string \<times> face_presence" where
  "check_face_presence now img d =
     (case img of
        None \<Rightarrow> handle_no_face now d
      | Some detections \<Rightarrow>
          if detections > 0
          then (''Active'', d\<lparr>last_face_detected_time := now, face_lost_time := None\<rparr>)
          else handle_no_face now d)"

definition reset_presence :: "real \<Rightarrow> face_presence \<Rightarrow> face_presence" where
  "reset_presence now d = d\<lparr>face_lost_time := None, last_face_detected_time := now\<rparr>"

text \<open>A sequence of calls of \<^const>\<open>check_face_presence\<close>, one per frame: each frame is
  the clock read and the image.  The result lists the status returned for each frame.\<close>

fun presence_run ::
    "(real \<times> nat option) list \<Rightarrow> face_presence \<Rightarrow> string list \<times> face_presence" where
  "presence_run [] d = ([], d)"
| "presence_run ((now, img) # fs) d =
     (let (st, d1) = check_face_presence now img d;
          (sts, d2) = presence_run fs d1
      in (st # sts, d2))"

text \<open>The status the classifier gives to an absence that has lasted \<open>e\<close> seconds.\<close>

definition absence_status :: "face_presence \<Rightarrow> real \<Rightarrow> string" where
  "absence_status d e =
     (if e < short_absence_threshold d then ''Active''
      else if e < long_absence_threshold d then ''Inactive (Face Missing)''
      else ''Not Awake'')"

text \<open>The order of the three presence statuses, for "never regressing".\<close>

definition severity :: "string \<Rightarrow> nat" where
  "severity st =
     (if st = ''Not Awake'' then 2 else if st = ''Inactive (Face Missing)'' then 1 else 0)"

definition absent :: "real \<times> nat option \<Rightarrow> bool" where
  "absent f = (snd f = None \<or> snd f = Some 0)"

section \<open>Emergency escalator (utils/emergency\_wakeup.py)\<close>

text \<open>
  The escalator's fields.  A timer or thread attribute is \<open>True\<close> when the attribute
  holds an object and \<open>False\<close> when it is \<^verbatim>\<open>None\<close>; \<open>emitted\<close> lists the colours
  sent on \<^verbatim>\<open>flash_signal\<close>, oldest first.  Whether a thread created earlier is still
  alive is decided by the scheduler, so it is a parameter of the methods that ask.
\<close>

record emergency_wakeup =
  is_emergency_active :: bool
  flash_timer :: bool
  flash_count :: int
  siren_thread :: bool
  tts_thread :: bool
  siren_sound :: bool
  ew_tts_engine :: bool
  pygame_initialized :: bool
  emitted :: "string list"

text \<open>The constructor; the three flags say which of the audio resources could be
  initialised.\<close>

definition init_emergency_wakeup :: "bool \<Rightarrow> bool \<Rightarrow> bool \<Rightarrow> emergency_wakeup" where
  "init_emergency_wakeup mixer_ok tts_ok sound_ok =
     \<lparr>is_emergency_active = False, flash_timer = False, flash_count = 0,
      siren_thread = False, tts_thread = False, siren_sound = sound_ok,
      ew_tts_engine = tts_ok, pygame_initialized = mixer_ok, emitted = []\<rparr>"

definition play_siren :: "bool \<Rightarrow> emergency_wakeup \<Rightarrow> emergency_wakeup" where
  "play_siren alive e =
     (if siren_thread e \<and> alive then e else e\<lparr>siren_thread := True\<rparr>)"

definition start_screen_flash :: "emergency_wakeup \<Rightarrow> emergency_wakeup" where
  "start_screen_flash e = e\<lparr>flash_count := 0, flash_timer := True\<rparr>"

definition speak_wake_up_message :: "bool \<Rightarrow> emergency_wakeup \<Rightarrow> emergency_wakeup" where
  "speak_wake_up_message alive e =
     (if tts_thread e \<and> alive then e else e\<lparr>tts_thread := True\<rparr>)"

text \<open>\<^verbatim>\<open>trigger_emergency\<close>; \<open>alive\<close> gives the liveness of the siren thread and of the
  voice thread.\<close>

definition trigger_emergency :: "bool \<times> bool \<Rightarrow> emergency_wakeup \<Rightarrow> emergency_wakeup" where
  "trigger_emergency alive e =
     (if is_emergency_active e then e
      else speak_wake_up_message (snd alive)
             (start_screen_flash
               (play_siren (fst alive)
                 (e\<lparr>is_emergency_active := True, flash_count := 0\<rparr>))))"

text \<open>\<^verbatim>\<open>flash_screen\<close>, the timer's callback.\<close>

definition flash_screen :: "emergency_wakeup \<Rightarrow> emergency_wakeup" where
  "flash_screen e =
     (if \<not> is_emergency_active e
      then (if flash_timer e then e\<lparr>flash_timer := False\<rparr> else e)
      else e\<lparr>emitted := emitted e @ [if flash_count e mod 2 = 0 then ''red'' else ''blue''],
             flash_count := flash_count e + 1\<rparr>)"

text \<open>\<^verbatim>\<open>stop_emergency\<close>.  Each clean-up step of the source sits in its own
  \<^verbatim>\<open>try\<close> block, so none of them raises; stopping the mixer and the voice engine
  changes no field.\<close>

definition stop_emergency :: "emergency_wakeup \<Rightarrow> emergency_wakeup" where
  "stop_emergency e =
     (if \<not> is_emergency_active e then e
      else e\<lparr>is_emergency_active := False, flash_timer := False,
             emitted := emitted e @ [''normal'']\<rparr>)"

definition cleanup :: "emergency_wakeup \<Rightarrow> emergency_wakeup" where
  "cleanup e = (stop_emergency e)\<lparr>ew_tts_engine := False\<rparr>"

section \<open>Notification sink (utils/ai\_feedback.py)\<close>

datatype priority = Normal | High

datatype py_error = IndexError | ValueError

record ai_feedback =
  tts_engine :: bool
  speech_queue :: "(string \<times> priority) list"
  is_speaking :: bool
  last_spoken_status :: "string option"
  last_speech_time :: real
  min_speech_interval :: real
  status_messages :: "(string \<times> string list) list"

text \<open>The dictionary \<^verbatim>\<open>status_messages\<close> the constructor builds.\<close>

definition status_messages_table :: "(string \<times> string list) list" where
  "status_messages_table =
     [(''Active'',
        [''Great! You're staying focused.'', ''Good attention level detected.'',
         ''Keep up the good work!'', ''Excellent focus maintained.'']),
      (''Yawning'',
        [''I notice you're yawning. Try to stay alert.'',
         ''You seem tired. Take a deep breath.'',
         ''Yawning detected. Please stay focused.'',
         ''Feeling sleepy? Try to stay awake.'']),
      (''Drowsy'',
        [''You appear drowsy. Please stay awake.'',
         ''Low eye activity detected. Please focus.'',
         ''Drowsiness alert! Please pay attention.'',
         ''Your eyes seem heavy. Please stay alert.'']),
      (''Inactive (Face Missing)'',
        [''I can't see your face. Please position yourself properly.'',
         ''Face not detected. Please come back to the camera.'',
         ''Please ensure you're visible to the camera.'',
         ''Please return to your position.'']),
      (''Face Missing'',
        [''I can't see your face. Please position yourself properly.'',
         ''Face not detected. Please come back to the camera.'',
         ''Please ensure you're visible to the camera.'',
         ''Please return to your position.'']),
      (''Multiple Persons Detected'',
        [''Multiple people detected. Please ensure only one person is monitoring.'',
         ''Too many faces in view. Please clear the area.'',
         ''Single user mode required.'',
         ''Only one person should be in view.'']),
      (''Multiple Faces'',
        [''Multiple people detected. Please ensure only one person is monitoring.'',
         ''Too many faces in view. Please clear the area.'',
         ''Single user mode required.'',
         ''Only one person should be in view.'']),
      (''Looking Away'',
        [''I notice you're looking away. Please focus on your studies.'',
         ''Please look at the screen.'',
         ''Your attention seems to be elsewhere.'',
         ''Please redirect your attention to your work.'']),
      (''Distracted'',
        [''You seem distracted. Please focus.'',
         ''Please pay attention to your studies.'',
         ''Your attention level is low.'',
         ''Please concentrate on your work.'']),
      (''Not Awake'',
        [''You've been away too long. Please return.'',
         ''Extended absence detected. Please come back.'',
         ''Long inactivity period. Please focus.'',
         ''Please wake up and return to your studies.'']),
      (''Fake Presence'',
        [''Artificial presence detected. Please use live video only.'',
         ''Static image detected. Please show live movement.'',
         ''Spoofing attempt detected.'',
         ''Please ensure live video feed.'']),
      (''Emergency'',
        [''Emergency alert! Please wake up immediately!'',
         ''Attention required! You've been inactive too long!'',
         ''Wake up! Please return to your studies!'',
         ''Critical alert! Please focus on your work!'']),
      (''Inactive'',
        [''You seem inactive. Please engage with your studies.'',
         ''No activity detected. Please stay focused.'',
         ''Please remain active and attentive.'',
         ''Activity level is low. Please concentrate.''])]"

text \<open>The constructor; \<open>tts_ok\<close> says whether the voice engine could be initialised.
  The queue is unbounded, so putting on it never fails.\<close>

definition init_ai_feedback :: "bool \<Rightarrow> ai_feedback" where
  "init_ai_feedback tts_ok =
     \<lparr>tts_engine = tts_ok, speech_queue = [], is_speaking = False,
      last_spoken_status = None, last_speech_time = 0, min_speech_interval = 3,
      status_messages = status_messages_table\<rparr>"

definition critical_statuses :: "string list" where
  "critical_statuses = [''Emergency'', ''Not Awake'', ''Fake Presence'', ''Drowsy'']"

text \<open>\<^verbatim>\<open>self.status_messages.get(status, [f"Status update: {status}"])\<close>.\<close>

definition messages_for :: "ai_feedback \<Rightarrow> string \<Rightarrow> string list" where
  "messages_for a status =
     (case map_of (status_messages a) status of
        Some ms \<Rightarrow> ms
      | None \<Rightarrow> [''Status update: '' @ status])"

text \<open>\<^verbatim>\<open>speak_status\<close>.  \<open>now\<close> is the clock read and \<open>pick\<close> the index that
  \<^verbatim>\<open>random.choice\<close> draws.  The checks come in the source's order: the voice engine,
  the repetition interval, the busy flag, and only then the priority.  Reading
  \<^verbatim>\<open>messages[0]\<close> of an empty list would raise.\<close>

definition speak_status ::
    "real \<Rightarrow> nat \<Rightarrow> string \<Rightarrow> ai_feedback \<Rightarrow> py_error + ai_feedback" where
  "speak_status now pick status a =
     (if \<not> tts_engine a then Inr a
      else if last_spoken_status a = Some status
              \<and> now - last_speech_time a < min_speech_interval a then Inr a
      else if is_speaking a \<and> status \<notin> set critical_statuses then Inr a
      else
        (case messages_for a status of
           [] \<Rightarrow> Inl IndexError
         | m0 # ms \<Rightarrow>
             (let messages = m0 # ms;
                  message = (if length messages > 1
                             then messages ! (pick mod length messages) else m0);
                  prio = (if status \<in> set critical_statuses then High else Normal);
                  queue = (if prio = High then [] else speech_queue a)
              in Inr (a\<lparr>speech_queue := queue @ [(message, prio)],
                        last_spoken_status := Some status,
                        last_speech_time := now\<rparr>))))"

section \<open>Eye and mouth extractors (utils/eye\_tracking.py, utils/yawn\_detection.py)\<close>

type_synonym point = "int \<times> int"

text \<open>\<^verbatim>\<open>np.linalg.norm(p - q)\<close> for two points.\<close>

definition norm_diff :: "point \<Rightarrow> point \<Rightarrow> real" where
  "norm_diff p q = sqrt (real_of_int ((fst p - fst q)\<^sup>2 + (snd p - snd q)\<^sup>2))"

text \<open>The loop that gathers the coordinates of the needed indices and leaves the
  function as soon as one index is not below \<^verbatim>\<open>len(landmarks)\<close>; \<open>None\<close> is that early
  return.\<close>

fun collect_points :: "point list \<Rightarrow> nat list \<Rightarrow> point list option" where
  "collect_points landmarks [] = Some []"
| "collect_points landmarks (i # idxs) =
     (if i < length landmarks
      then map_option ((#) (landmarks ! i)) (collect_points landmarks idxs)
      else None)"

definition left_eye_points :: "nat list" where
  "left_eye_points = [33, 160, 158, 133, 153, 144]"

definition right_eye_points :: "nat list" where
  "right_eye_points = [362, 385, 387, 263, 373, 380]"

definition mouth_points :: "nat list" where
  "mouth_points = [13, 14, 78, 308, 18, 175]"

record eye_tracker =
  ear_history :: "real list"
  et_last_ear :: real

definition init_eye_tracker :: eye_tracker where
  "init_eye_tracker = \<lparr>ear_history = [], et_last_ear = 3 / 10\<rparr>"

definition calculate_single_eye_ear :: "eye_tracker \<Rightarrow> point list \<Rightarrow> nat list \<Rightarrow> real" where
  "calculate_single_eye_ear tr landmarks eye_points =
     (case collect_points landmarks eye_points of
        None \<Rightarrow> 25 / 100
      | Some eye_coords \<Rightarrow>
          if length eye_coords < 6 then 25 / 100
          else
            (let vertical_dist1 = norm_diff (eye_coords ! 1) (eye_coords ! 5);
                 vertical_dist2 = norm_diff (eye_coords ! 2) (eye_coords ! 4);
                 horizontal_dist = norm_diff (eye_coords ! 0) (eye_coords ! 3)
             in if horizontal_dist > 5 / 10
                then max 0 (min 1 ((vertical_dist1 + vertical_dist2) / (2 * horizontal_dist)))
                else et_last_ear tr))"

text \<open>The head pose is a dictionary, here an association list; \<^verbatim>\<open>get\<close> with default 0.\<close>

definition pose_get :: "(string \<times> real) list \<Rightarrow> string \<Rightarrow> real" where
  "pose_get head_pose_data k = (case map_of head_pose_data k of Some v \<Rightarrow> v | None \<Rightarrow> 0)"

definition compensate_for_head_pose :: "real \<Rightarrow> (string \<times> real) list \<Rightarrow> real" where
  "compensate_for_head_pose ear head_pose_data =
     (let pitch = pose_get head_pose_data ''pitch'';
          yaw = pose_get head_pose_data ''yaw'';
          ear1 = (if pitch > 10 then ear * (11 / 10)
                  else if pitch < - 10 then ear * (95 / 100) else ear)
      in if \<bar>yaw\<bar> > 20 then ear1 * (105 / 100) else ear1)"

text \<open>The sample that \<^verbatim>\<open>calculate_ear\<close> appends to its history: the mean of the two
  eyes, compensated when a head pose is given (\<^verbatim>\<open>None\<close> and the empty dictionary are
  both false in Python).\<close>

definition raw_ear ::
    "eye_tracker \<Rightarrow> point list \<Rightarrow> (string \<times> real) list option \<Rightarrow> real" where
  "raw_ear tr landmarks head_pose_data =
     (let left_ear = calculate_single_eye_ear tr landmarks left_eye_points;
          right_ear = calculate_single_eye_ear tr landmarks right_eye_points;
          ear = (left_ear + right_ear) / 2
      in case head_pose_data of
           None \<Rightarrow> ear
         | Some hp \<Rightarrow> if hp = [] then ear else compensate_for_head_pose ear hp)"

text \<open>Appending to a history that keeps at most \<open>n\<close> values (\<^verbatim>\<open>append\<close>, then
  \<^verbatim>\<open>pop(0)\<close> when the length exceeds \<open>n\<close>).\<close>

definition push_history :: "nat \<Rightarrow> real list \<Rightarrow> real \<Rightarrow> real list" where
  "push_history n history x =
     (let h = history @ [x] in if length h > n then tl h else h)"

definition calculate_ear ::
    "point list \<Rightarrow> (string \<times> real) list option \<Rightarrow> eye_tracker \<Rightarrow> real \<times> eye_tracker" where
  "calculate_ear landmarks head_pose_data tr =
     (let ear = raw_ear tr landmarks head_pose_data;
          h = push_history 8 (ear_history tr) ear;
          smoothed_ear = sum_list h / real (length h)
      in (smoothed_ear, tr\<lparr>ear_history := h, et_last_ear := smoothed_ear\<rparr>))"

record yawn_detector =
  mar_history :: "real list"
  yd_last_mar :: real

definition init_yawn_detector :: yawn_detector where
  "init_yawn_detector = \<lparr>mar_history = [], yd_last_mar = 0\<rparr>"

text \<open>The sample \<^verbatim>\<open>calculate_mar\<close> appends when all mouth landmarks are present.\<close>

definition raw_mar :: "yawn_detector \<Rightarrow> point list \<Rightarrow> real" where
  "raw_mar yd mouth_coords =
     (let vertical_dist1 = norm_diff (mouth_coords ! 0) (mouth_coords ! 4);
          vertical_dist2 = norm_diff (mouth_coords ! 1) (mouth_coords ! 5);
          horizontal_dist = norm_diff (mouth_coords ! 2) (mouth_coords ! 3)
      in if horizontal_dist > 1
         then (vertical_dist1 + vertical_dist2) / (2 * horizontal_dist)
         else yd_last_mar yd)"

definition calculate_mar :: "point list \<Rightarrow> yawn_detector \<Rightarrow> real \<times> yawn_detector" where
  "calculate_mar landmarks yd =
     (case collect_points landmarks mouth_points of
        None \<Rightarrow> (yd_last_mar yd, yd)
      | Some mouth_coords \<Rightarrow>
          if length mouth_coords < 6 then (yd_last_mar yd, yd)
          else
            (let mar = raw_mar yd mouth_coords;
                 h = push_history 10 (mar_history yd) mar;
                 smoothed_mar = sum_list h / real (length h)
             in (smoothed_mar, yd\<lparr>mar_history := h, yd_last_mar := smoothed_mar\<rparr>)))"

section \<open>Event log (utils/activity\_logger.py)\<close>

text \<open>
  A row of the CSV file, without its time-stamp columns and without the duration
  column (0 in every call of the monitor).  The description is kept as a value instead
  of the formatted sentence, and the inactive duration as \<open>None\<close> for the dash; the
  source prints both with one decimal.  Writing a row cannot raise (the source catches the I/O error), and
  \<open>log_rows\<close> lists the rows handed to \<^verbatim>\<open>log_event\<close>, oldest first.
\<close>

datatype description =
    Status_Changed string string
  | Returned_To_Active real
  | Inactive_For_More_Than real
  | Detection_Session string

record log_row =
  row_status :: string
  row_description :: description
  row_ear :: real
  row_mar :: real
  row_inactive_duration :: "real option"

record activity_logger =
  last_inactive_start :: "real option"
  log_rows :: "log_row list"

definition init_activity_logger :: activity_logger where
  "init_activity_logger = \<lparr>last_inactive_start = None, log_rows = []\<rparr>"

definition log_event ::
    "string \<Rightarrow> description \<Rightarrow> real \<Rightarrow> real \<Rightarrow> real option \<Rightarrow> activity_logger
      \<Rightarrow> activity_logger" where
  "log_event status descr ear_value mar_value inactive_duration lg =
     lg\<lparr>log_rows := log_rows lg @
          [\<lparr>row_status = status, row_description = descr, row_ear = ear_value,
            row_mar = mar_value, row_inactive_duration = inactive_duration\<rparr>]\<rparr>"

definition is_inactive_status :: "string \<Rightarrow> bool" where
  "is_inactive_status status =
     (status \<in> set [''Drowsy'', ''Yawning'', ''Inactive (Face Missing)'', ''Not Awake'',
                     ''Multiple Persons Detected'', ''Inactive''])"

definition log_status_change ::
    "string \<Rightarrow> string \<Rightarrow> real \<Rightarrow> real \<Rightarrow> real \<Rightarrow> activity_logger \<Rightarrow> activity_logger" where
  "log_status_change old_status new_status ear mar current_time lg =
     (let (inactive_duration, lg1) =
            (if is_inactive_status old_status \<and> new_status = ''Active''
             then (case last_inactive_start lg of
                     Some t \<Rightarrow> (Some (current_time - t), lg\<lparr>last_inactive_start := None\<rparr>)
                   | None \<Rightarrow> (None, lg))
             else if old_status = ''Active'' \<and> is_inactive_status new_status
             then (None, lg\<lparr>last_inactive_start := Some current_time\<rparr>)
             else if is_inactive_status old_status \<and> is_inactive_status new_status
             then (None, lg)
             else if \<not> is_inactive_status old_status \<and> \<not> is_inactive_status new_status
             then (None, lg\<lparr>last_inactive_start := None\<rparr>)
             else (None, lg))
      in log_event new_status (Status_Changed old_status new_status) ear mar
           inactive_duration lg1)"

definition log_detection_session :: "string \<Rightarrow> activity_logger \<Rightarrow> activity_logger" where
  "log_detection_session action lg =
     log_event ''System'' (Detection_Session action) 0 0 None
       (if action = ''started'' \<or> action = ''stopped''
        then lg\<lparr>last_inactive_start := None\<rparr> else lg)"

definition log_inactive_to_active_transition ::
    "real \<Rightarrow> real \<Rightarrow> real \<Rightarrow> activity_logger \<Rightarrow> activity_logger" where
  "log_inactive_to_active_transition total_inactive_duration ear mar lg =
     (log_event ''Active'' (Returned_To_Active total_inactive_duration) ear mar
        (Some total_inactive_duration) lg)\<lparr>last_inactive_start := None\<rparr>"

definition reset_inactive_tracking :: "activity_logger \<Rightarrow> activity_logger" where
  "reset_inactive_tracking lg = lg\<lparr>last_inactive_start := None\<rparr>"

section \<open>The monitor (master\_controller\_gui.py)\<close>

text \<open>
  The fields of \<^verbatim>\<open>AttentivenessMonitor\<close> that its detection logic reads or writes;
  the widgets, the camera and the fields that are written once and never read
  (\<^verbatim>\<open>previous_status\<close>, \<^verbatim>\<open>inactive_duration_start\<close>, \<^verbatim>\<open>stability_threshold\<close>) are
  left out.  The notification sink is a collaborator: \<open>spoken\<close> lists
  the statuses passed to its \<^verbatim>\<open>speak_status\<close>, oldest first (what the sink does with
  them is \<^const>\<open>speak_status\<close> above).
\<close>

record monitor =
  detection_active :: bool
  current_status :: string
  last_active_time :: real
  inactive_start_time :: "real option"
  emergency_triggered :: bool
  inactivity_threshold :: real
  last_ear :: real
  last_mar :: real
  drowsy_counter :: int
  yawn_counter :: int
  status_stability_counter :: int
  drowsy_threshold :: int
  yawn_threshold :: int
  activity_logger :: activity_logger
  spoken :: "string list"
  eye_tracker :: eye_tracker
  yawn_detector :: yawn_detector
  face_presence_detector :: face_presence
  emergency :: emergency_wakeup

text \<open>The constructor: \<open>now\<close> is its clock read, \<open>presence_now\<close> the one of the
  presence detector it creates, \<open>ew\<close> the escalator it creates.\<close>

definition init_monitor :: "real \<Rightarrow> real \<Rightarrow> emergency_wakeup \<Rightarrow> monitor" where
  "init_monitor now presence_now ew =
     \<lparr>detection_active = False, current_status = ''Inactive'', last_active_time = now,
      inactive_start_time = None, emergency_triggered = False, inactivity_threshold = 5,
      last_ear = 0, last_mar = 0, drowsy_counter = 0, yawn_counter = 0,
      status_stability_counter = 0, drowsy_threshold = 5, yawn_threshold = 3,
      activity_logger = init_activity_logger, spoken = [],
      eye_tracker = init_eye_tracker, yawn_detector = init_yawn_detector,
      face_presence_detector = init_face_presence presence_now, emergency = ew\<rparr>"

definition speak :: "string \<Rightarrow> monitor \<Rightarrow> monitor" where
  "speak status m = m\<lparr>spoken := spoken m @ [status]\<rparr>"

definition determine_status_simple :: "real \<Rightarrow> real \<Rightarrow> monitor \<Rightarrow> string \<times> monitor" where
  "determine_status_simple ear mar m =
     (let m1 = (if ear < 22 / 100
                then m\<lparr>drowsy_counter := drowsy_counter m + 1, yawn_counter := 0\<rparr>
                else if mar > 6 / 10
                then m\<lparr>yawn_counter := yawn_counter m + 1, drowsy_counter := 0\<rparr>
                else m\<lparr>drowsy_counter := 0, yawn_counter := 0\<rparr>)
      in if drowsy_counter m1 \<ge> drowsy_threshold m1 then (''Drowsy'', m1)
         else if yawn_counter m1 \<ge> yawn_threshold m1 then (''Yawning'', m1)
         else (''Active'', m1))"

text \<open>\<^verbatim>\<open>reset_inactivity_tracking\<close>; \<open>now\<close> is the method's own clock read.\<close>

definition reset_inactivity_tracking :: "real \<Rightarrow> monitor \<Rightarrow> monitor" where
  "reset_inactivity_tracking now m =
     (let m1 = (case inactive_start_time m of
                  Some t0 \<Rightarrow>
                    if current_status m \<noteq> ''Active''
                    then speak ''User Active Again''
                           (m\<lparr>activity_logger :=
                                log_inactive_to_active_transition (now - t0)
                                  (last_ear m) (last_mar m) (activity_logger m)\<rparr>)
                    else m
                | None \<Rightarrow> m);
          m2 = m1\<lparr>last_active_time := now, inactive_start_time := None,
                  emergency_triggered := False\<rparr>
      in if is_emergency_active (emergency m2)
         then m2\<lparr>emergency := stop_emergency (emergency m2)\<rparr>
         else m2)"

text \<open>The monitor's \<^verbatim>\<open>trigger_emergency\<close>: start the escalator, log the event, notify.\<close>

definition monitor_trigger_emergency :: "bool \<times> bool \<Rightarrow> monitor \<Rightarrow> monitor" where
  "monitor_trigger_emergency alive m =
     speak ''Emergency Alert''
       (m\<lparr>emergency := trigger_emergency alive (emergency m),
          activity_logger :=
            log_event ''Emergency'' (Inactive_For_More_Than (inactivity_threshold m)) 0 0 None
              (activity_logger m)\<rparr>)"

text \<open>\<^verbatim>\<open>handle_inactivity_tracking\<close>.  \<open>alive\<close> is the liveness of the escalator's
  threads and \<open>reset_now\<close> the clock read of \<^const>\<open>reset_inactivity_tracking\<close>, used on
  the branches that need them.\<close>

definition handle_inactivity_tracking ::
    "bool \<times> bool \<Rightarrow> real \<Rightarrow> string \<Rightarrow> real \<Rightarrow> monitor \<Rightarrow> monitor" where
  "handle_inactivity_tracking alive reset_now status current_time m =
     (if status \<noteq> ''Active''
      then
        (let m1 = (if inactive_start_time m = None
                   then m\<lparr>inactive_start_time := Some current_time\<rparr> else m);
             inactive_duration = current_time - the (inactive_start_time m1)
         in if inactive_duration \<ge> inactivity_threshold m1 \<and> \<not> emergency_triggered m1
            then speak ''User Inactive Too Long''
                   ((monitor_trigger_emergency alive m1)\<lparr>emergency_triggered := True\<rparr>)
            else m1)
      else reset_inactivity_tracking reset_now m)"

text \<open>\<^verbatim>\<open>update_status\<close>; \<open>now\<close> is the clock read passed to the logger.\<close>

definition update_status :: "real \<Rightarrow> string \<Rightarrow> monitor \<Rightarrow> monitor" where
  "update_status now status m =
     (if status \<noteq> current_status m
      then speak status
             (m\<lparr>current_status := status,
                activity_logger :=
                  log_status_change (current_status m) status (last_ear m) (last_mar m) now
                    (activity_logger m)\<rparr>)
      else m)"

text \<open>\<^verbatim>\<open>check_multiple_faces\<close> of utils/multiple\_faces.py, on the number of detections
  its own face detector reports.\<close>

definition check_multiple_faces :: "nat \<Rightarrow> string option" where
  "check_multiple_faces detections =
     (if detections > 1 then Some ''Multiple Persons Detected'' else None)"

text \<open>
  What one video frame brings: the landmark lists of the face mesh (one per face, in
  pixel coordinates; empty when the mesh finds no face), the numbers of detections of the
  two face detectors, the clock reads made while the frame is processed, and the
  liveness of the escalator's threads.
\<close>

record frame =
  multi_face_landmarks :: "point list list"
  multiple_detections :: nat
  presence_detections :: nat
  frame_time :: real
  presence_time :: real
  reset_time :: real
  update_time :: real
  threads_alive :: "bool \<times> bool"

text \<open>\<^verbatim>\<open>process_frame\<close>.  The only statement that can raise is the bounding box of
  the first face (\<^verbatim>\<open>min\<close> of an empty list), before any field is written.\<close>

definition process_frame :: "frame \<Rightarrow> monitor \<Rightarrow> py_error + monitor" where
  "process_frame f m =
     (let multiple_faces_status =
            (if length (multi_face_landmarks f) > 1
             then check_multiple_faces (multiple_detections f) else None)
      in case multiple_faces_status of
           Some status \<Rightarrow>
             (let m1 = update_status (update_time f) status m;
                  m2 = handle_inactivity_tracking (threads_alive f) (reset_time f)
                         ''Multiple Faces'' (frame_time f) m1
              in Inr (if current_status m2 \<noteq> ''Multiple Persons Detected''
                      then speak ''Multiple Persons Detected'' m2 else m2))
         | None \<Rightarrow>
             (case multi_face_landmarks f of
                [] \<Rightarrow>
                  (let (face_presence_status, fp) =
                         check_face_presence (presence_time f) (Some (presence_detections f))
                           (face_presence_detector m);
                       m1 = m\<lparr>face_presence_detector := fp\<rparr>;
                       m2 = handle_inactivity_tracking (threads_alive f) (reset_time f)
                              face_presence_status (frame_time f) m1;
                       m3 = (if current_status m2 \<noteq> ''Inactive (Face Missing)''
                             then speak ''Face Not Detected'' m2 else m2)
                   in Inr (update_status (update_time f) face_presence_status m3))
              | landmarks # _ \<Rightarrow>
                  if landmarks = [] then Inl ValueError
                  else
                    (let (ear, et) = calculate_ear landmarks None (eye_tracker m);
                         m1 = m\<lparr>eye_tracker := et, last_ear := ear\<rparr>;
                         (mar, yd) = calculate_mar landmarks (yawn_detector m1);
                         m2 = m1\<lparr>yawn_detector := yd, last_mar := mar\<rparr>;
                         (status, m3) = determine_status_simple ear mar m2;
                         m4 = (if status = ''Active''
                               then reset_inactivity_tracking (reset_time f) m3
                               else handle_inactivity_tracking (threads_alive f)
                                      (reset_time f) status (frame_time f) m3)
                     in Inr (update_status (update_time f) status m4))))"

text \<open>\<^verbatim>\<open>start_detection\<close>.  \<open>camera_ok\<close> says whether the camera is open or opens when
  asked, \<open>opened_now\<close> whether it had to be opened by this call; \<open>now\<close> is the
  method's clock read and \<open>presence_now\<close> the one of the presence detector's reset.\<close>

definition start_detection :: "bool \<Rightarrow> bool \<Rightarrow> real \<Rightarrow> real \<Rightarrow> monitor \<Rightarrow> monitor" where
  "start_detection camera_ok opened_now now presence_now m =
     (if \<not> camera_ok then m
      else
        (let m0 = (if opened_now
                   then speak ''Detection Started'' (speak ''Camera Opened'' m) else m);
             m1 = m0\<lparr>detection_active := True, last_active_time := now,
                     inactive_start_time := None, emergency_triggered := False,
                     drowsy_counter := 0, yawn_counter := 0, status_stability_counter := 0,
                     face_presence_detector :=
                       reset_presence presence_now (face_presence_detector m0),
                     activity_logger :=
                       log_detection_session ''started''
                         (reset_inactive_tracking (activity_logger m0))\<rparr>
         in speak ''Detection Started'' m1))"

text \<open>\<^verbatim>\<open>stop_detection\<close>; \<open>now\<close> is the clock read of \<^const>\<open>update_status\<close>.\<close>

definition stop_detection :: "real \<Rightarrow> monitor \<Rightarrow> monitor" where
  "stop_detection now m =
     (let m1 = speak ''Detection Stopped''
                 (m\<lparr>detection_active := False,
                    activity_logger := log_detection_session ''stopped'' (activity_logger m)\<rparr>);
          m2 = m1\<lparr>emergency := stop_emergency (emergency m1), emergency_triggered := False\<rparr>
      in update_status now ''Inactive'' m2)"

text \<open>\<^verbatim>\<open>open_camera\<close> and \<^verbatim>\<open>close_camera\<close>: of the modelled fields they touch only the
  notifications.  \<open>camera_ok\<close> says whether the camera opens, \<open>has_camera\<close> whether
  a camera object is held.\<close>

definition open_camera :: "bool \<Rightarrow> monitor \<Rightarrow> monitor" where
  "open_camera camera_ok m = (if camera_ok then speak ''Camera Opened'' m else m)"

definition close_camera :: "bool \<Rightarrow> monitor \<Rightarrow> monitor" where
  "close_camera has_camera m = (if has_camera then speak ''Camera Closed'' m else m)"

text \<open>The callback of the escalator's flash timer, \<^const>\<open>flash_screen\<close>, seen from the
  monitor: the slot \<^verbatim>\<open>handle_emergency_flash\<close> connected to the signal restyles widgets
  only.\<close>

definition flash_tick :: "monitor \<Rightarrow> monitor" where
  "flash_tick m = m\<lparr>emergency := flash_screen (emergency m)\<rparr>"

text \<open>\<^verbatim>\<open>close_application\<close>; \<open>camera_open\<close> says whether the camera is open.  Unlike
  \<^const>\<open>stop_detection\<close> it does not set the status.\<close>

definition close_application :: "bool \<Rightarrow> monitor \<Rightarrow> monitor" where
  "close_application camera_open m =
     (let m1 = (if detection_active m
                then (let m0 = speak ''Stopping Detection'' m;
                          m0' = m0\<lparr>detection_active := False,
                                   activity_logger :=
                                     log_detection_session ''stopped'' (activity_logger m0)\<rparr>
                      in m0'\<lparr>emergency := stop_emergency (emergency m0'),
                             emergency_triggered := False\<rparr>)
                else m);
          m2 = (if camera_open then speak ''Camera Closed'' m1 else m1);
          m3 = speak ''Exiting Application'' m2;
          m4 = m3\<lparr>emergency := cleanup (emergency m3)\<rparr>
      in speak ''All Operations Stopped'' m4)"

text \<open>The states the monitor can be in: built by the constructor, then driven by the
  buttons, by the flash timer while the escalator holds one, and, while detection is
  active, by the frames of the camera.\<close>

inductive reachable :: "monitor \<Rightarrow> bool" where
  reach_init:
    "reachable (init_monitor now presence_now (init_emergency_wakeup mixer_ok tts_ok sound_ok))"
| reach_start:
    "reachable m \<Longrightarrow> reachable (start_detection camera_ok opened_now now presence_now m)"
| reach_stop: "reachable m \<Longrightarrow> reachable (stop_detection now m)"
| reach_frame:
    "reachable m \<Longrightarrow> detection_active m \<Longrightarrow> process_frame f m = Inr m' \<Longrightarrow> reachable m'"
| reach_flash: "reachable m \<Longrightarrow> flash_timer (emergency m) \<Longrightarrow> reachable (flash_tick m)"
| reach_open: "reachable m \<Longrightarrow> reachable (open_camera camera_ok m)"
| reach_close: "reachable m \<Longrightarrow> reachable (close_camera has_camera m)"
| reach_exit: "reachable m \<Longrightarrow> reachable (close_application camera_open m)"




text \<open>How often the monitor has started the escalation protocol: the emergency rows of
  the log.\<close>

definition emergencies :: "monitor \<Rightarrow> nat" where
  "emergencies m =
     length (filter (\<lambda>r. row_status r = ''Emergency'') (log_rows (activity_logger m)))"

text \<open>A run of single-face frames through the status classifier, each given by its EAR
  and MAR; the result lists the status of each frame.\<close>

fun status_run :: "(real \<times> real) list \<Rightarrow> monitor \<Rightarrow> string list \<times> monitor" where
  "status_run [] m = ([], m)"
| "status_run ((ear, mar) # fs) m =
     (let (st, m1) = determine_status_simple ear mar m;
          (sts, m2) = status_run fs m1
      in (st # sts, m2))"

section \<open>Runs of the extractors\<close>

text \<open>A sequence of calls of \<^const>\<open>calculate_ear\<close>, one per frame (the landmarks and the
  head pose); the result lists, for each frame, the raw sample that was appended and the
  smoothed value that was returned.\<close>

fun ear_run ::
    "(point list \<times> (string \<times> real) list option) list \<Rightarrow> eye_tracker
      \<Rightarrow> (real \<times> real) list \<times> eye_tracker" where
  "ear_run [] tr = ([], tr)"
| "ear_run ((landmarks, head_pose_data) # fs) tr =
     (let raw = raw_ear tr landmarks head_pose_data;
          (smoothed, tr1) = calculate_ear landmarks head_pose_data tr;
          (rest, tr2) = ear_run fs tr1
      in ((raw, smoothed) # rest, tr2))"

text \<open>The sample \<^const>\<open>calculate_mar\<close> appends for a frame that has every mouth
  landmark (for a frame that lacks one, nothing is appended and the previous value is
  returned).\<close>

definition mar_sample :: "yawn_detector \<Rightarrow> point list \<Rightarrow> real" where
  "mar_sample yd landmarks =
     (case collect_points landmarks mouth_points of
        Some mouth_coords \<Rightarrow> raw_mar yd mouth_coords
      | None \<Rightarrow> yd_last_mar yd)"

fun mar_run :: "point list list \<Rightarrow> yawn_detector \<Rightarrow> (real \<times> real) list \<times> yawn_detector" where
  "mar_run [] yd = ([], yd)"
| "mar_run (landmarks # fs) yd =
     (let raw = mar_sample yd landmarks;
          (smoothed, yd1) = calculate_mar landmarks yd;
          (rest, yd2) = mar_run fs yd1
      in ((raw, smoothed) # rest, yd2))"

text \<open>The arithmetic mean, and the last \<open>n\<close> elements of a list (all of it when it is
  shorter).\<close>

definition mean :: "real list \<Rightarrow> real" where
  "mean xs = sum_list xs / real (length xs)"

definition trailing :: "nat \<Rightarrow> 'a list \<Rightarrow> 'a list" where
  "trailing n xs = drop (length xs - n) xs"

text \<open>A frame carries no head-pose compensation when the pose is \<^verbatim>\<open>None\<close> or empty.\<close>

definition uncompensated :: "point list \<times> (string \<times> real) list option \<Rightarrow> bool" where
  "uncompensated f = (snd f = None \<or> snd f = Some [])"

text \<open>The frames of the camera, one after the other; a frame whose processing raises
  has written nothing and leaves the monitor as it was.\<close>

fun run_frames :: "frame list \<Rightarrow> monitor \<Rightarrow> monitor" where
  "run_frames [] m = m"
| "run_frames (f # fs) m =
     (case process_frame f m of
        Inr m' \<Rightarrow> run_frames fs m'
      | Inl e \<Rightarrow> run_frames fs m)"

section \<open>Example inputs\<close>

definition absent_frames :: "(real \<times> nat option) list" where
  "absent_frames = [(100, Some 0), (102, None), (103, Some 0), (109, Some 0), (110, Some 0), (111, None)]"

definition drowsy_frames :: "(real \<times> real) list" where
  "drowsy_frames = replicate 10 (15 / 100, 0)"

text \<open>The sink right after it has queued "Drowsy" at second 100, idle and busy.\<close>

definition spoke_drowsy :: ai_feedback where
  "spoke_drowsy =
     (init_ai_feedback True)
       \<lparr>speech_queue := [(''You appear drowsy. Please stay awake.'', High)],
        last_spoken_status := Some ''Drowsy'', last_speech_time := 100\<rparr>"

definition speaking_drowsy :: ai_feedback where
  "speaking_drowsy = spoke_drowsy\<lparr>is_speaking := True\<rparr>"

text \<open>Landmark lists of the face mesh (478 points).  In the first the eyes have ratio
  0.3 and the mouth ratio 0.5; in the second each eye is as high as it is wide.\<close>

definition attentive_face :: "point list" where
  "attentive_face =
     map (\<lambda>i. if i \<in> {158, 160, 385, 387} then (0, 3)
               else if i \<in> {133, 263} then (10, 0)
               else if i \<in> {18, 175} then (0, 1)
               else if i = 308 then (2, 0)
               else (0, 0)) [0..<478]"

definition wide_eyes :: "point list" where
  "wide_eyes =
     map (\<lambda>i. if i \<in> {158, 160, 385, 387} then (0, 1)
               else if i \<in> {133, 263} then (1, 0)
               else (0, 0)) [0..<478]"

text \<open>Two frames for the eye extractor (the second without any landmark) and two for the
  mouth extractor.\<close>

definition ear_frames :: "(point list \<times> (string \<times> real) list option) list" where
  "ear_frames = [(attentive_face, None), ([], None)]"

definition mouth_frames :: "point list list" where
  "mouth_frames = [attentive_face, attentive_face]"


definition fresh_monitor :: monitor where
  "fresh_monitor = init_monitor 0 0 (init_emergency_wakeup True True True)"

text \<open>The specification's last scenario: detection is started at second 0, two persons
  are in view at seconds 1 and 7, the flash timer of the escalation fires twice, and at
  second 8 a single attentive face is back.\<close>

definition crowd_frame :: "real \<Rightarrow> frame" where
  "crowd_frame t =
     \<lparr>multi_face_landmarks = [attentive_face, attentive_face], multiple_detections = 2,
      presence_detections = 2, frame_time = t, presence_time = t, reset_time = t,
      update_time = t, threads_alive = (False, False)\<rparr>"

definition face_frame :: "real \<Rightarrow> frame" where
  "face_frame t =
     \<lparr>multi_face_landmarks = [attentive_face], multiple_detections = 1,
      presence_detections = 1, frame_time = t, presence_time = t, reset_time = t,
      update_time = t, threads_alive = (True, True)\<rparr>"

definition started_monitor :: monitor where
  "started_monitor = start_detection True False 0 0 fresh_monitor"

definition crowded_monitor :: monitor where
  "crowded_monitor = run_frames [crowd_frame 1, crowd_frame 7] started_monitor"

definition flashed_monitor :: monitor where
  "flashed_monitor = flash_tick (flash_tick crowded_monitor)"

definition returned_monitor :: monitor where
  "returned_monitor = run_frames [face_frame 8] flashed_monitor"

text \<open>A frame in which neither the face mesh nor the presence detector finds a face, and
  a session in which the face is away at second 1, back at second 2 and away again at
  second 62.\<close>

definition absent_frame :: "real \<Rightarrow> frame" where
  "absent_frame t =
     \<lparr>multi_face_landmarks = [], multiple_detections = 0, presence_detections = 0,
      frame_time = t, presence_time = t, reset_time = t, update_time = t,
      threads_alive = (False, False)\<rparr>"

definition away_monitor :: monitor where
  "away_monitor = run_frames [absent_frame 1] started_monitor"

definition back_monitor :: monitor where
  "back_monitor = run_frames [face_frame 2] away_monitor"

definition away_again_monitor :: monitor where
  "away_again_monitor = run_frames [absent_frame 62] back_monitor"

section \<open>Face presence: absence progression\<close>

lemma absence_status_update [simp]:
  "absence_status (d\<lparr>face_lost_time := x\<rparr>) e = absence_status d e"
  by (simp add: absence_status_def)

lemma handle_no_face_running:
  assumes "short_absence_threshold d \<le> long_absence_threshold d"
    and "face_lost_time d = Some t0"
  shows "handle_no_face now d = (absence_status d (now - t0), d)"
  using assms by (auto simp: handle_no_face_def absence_status_def Let_def)

lemma handle_no_face_first:
  assumes "short_absence_threshold d \<le> long_absence_threshold d"
    and "face_lost_time d = None"
  shows "handle_no_face now d = (absence_status d (now - now), d\<lparr>face_lost_time := Some now\<rparr>)"
  using assms by (auto simp: handle_no_face_def absence_status_def Let_def)

lemma check_absent:
  "absent (now, img) \<Longrightarrow> check_face_presence now img d = handle_no_face now d"
  by (auto simp: absent_def check_face_presence_def split: option.splits)

lemma presence_run_running:
  assumes "short_absence_threshold d \<le> long_absence_threshold d"
    and "face_lost_time d = Some t0"
    and "list_all absent fs"
  shows "presence_run fs d = (map (\<lambda>f. absence_status d (fst f - t0)) fs, d)"
  using assms
proof (induction fs)
  case Nil
  then show ?case by simp
next
  case (Cons f fs)
  obtain now img where f: "f = (now, img)" by (cases f)
  from Cons.prems f have "check_face_presence now img d = (absence_status d (now - t0), d)"
    by (simp add: check_absent handle_no_face_running)
  with Cons f show ?case by simp
qed

lemma presence_run_absent:
  assumes "short_absence_threshold d \<le> long_absence_threshold d"
    and "face_lost_time d = None"
    and "list_all absent (f # fs)"
  shows "presence_run (f # fs) d =
           (map (\<lambda>g. absence_status d (fst g - fst f)) (f # fs), d\<lparr>face_lost_time := Some (fst f)\<rparr>)"
proof -
  obtain now img where f: "f = (now, img)" by (cases f)
  let ?d1 = "d\<lparr>face_lost_time := Some now\<rparr>"
  from assms f have c: "check_face_presence now img d = (absence_status d (now - now), ?d1)"
    by (simp add: check_absent handle_no_face_first)
  have "presence_run fs ?d1 = (map (\<lambda>g. absence_status ?d1 (fst g - now)) fs, ?d1)"
    using assms by (intro presence_run_running) simp_all
  with c f show ?thesis by simp
qed

lemma severity_absence_mono:
  assumes "short_absence_threshold d \<le> long_absence_threshold d" and "e1 \<le> e2"
  shows "severity (absence_status d e1) \<le> severity (absence_status d e2)"
  using assms by (auto simp: severity_def absence_status_def)

lemma sorted_severity:
  assumes "short_absence_threshold d \<le> long_absence_threshold d"
    and "sorted (map fst fs)"
  shows "sorted (map severity (map (\<lambda>g. absence_status d (fst g - t0)) fs))"
  using assms
  by (induction fs) (auto intro!: severity_absence_mono)

lemma face_detected_resets:
  "0 < n \<Longrightarrow> check_face_presence now (Some n) d =
     (''Active'', d\<lparr>last_face_detected_time := now, face_lost_time := None\<rparr>)"
  by (simp add: check_face_presence_def)

text \<open>
  The detector on its own, called once for every frame.  Take a run of frames in which
  no face is detected (the image is missing or the detector reports nothing), with
  non-decreasing clock reads, that starts while the absence timer is not running, and
  thresholds with short \<open>\<le>\<close> long (the defaults are 3 and 10 seconds).  The first
  frame starts the timer at its own clock read, where it stays for the whole run; the
  status of every frame is the one its elapsed absence selects; the statuses never
  regress; and a call with a detected face resets the timer to \<open>None\<close>.
\<close>

lemma detector_absence_progression:
  assumes "short_absence_threshold d \<le> long_absence_threshold d"
    and "face_lost_time d = None"
    and "list_all absent (f # fs)"
    and "sorted (map fst (f # fs))"
  shows "fst (presence_run (f # fs) d) = map (\<lambda>g. absence_status d (fst g - fst f)) (f # fs)
       \<and> face_lost_time (snd (presence_run (f # fs) d)) = Some (fst f)
       \<and> sorted (map severity (fst (presence_run (f # fs) d)))
       \<and> (\<forall>now n d0. 0 < n \<longrightarrow>
             check_face_presence now (Some n) d0 =
               (''Active'', d0\<lparr>last_face_detected_time := now, face_lost_time := None\<rparr>))"
proof -
  note run = presence_run_absent [OF assms(1-3)]
  have "sorted (map severity (map (\<lambda>g. absence_status d (fst g - fst f)) (f # fs)))"
    using assms(1,4) by (rule sorted_severity)
  with run show ?thesis by (simp add: face_detected_resets)
qed

text \<open>
  Eleven seconds of absence on the detector as constructed, from second 100 to second
  111, then a call with a face.
\<close>

lemma detector_absence_progression_example:
  "fst (presence_run absent_frames (init_face_presence 50)) =
     [''Active'', ''Active'', ''Inactive (Face Missing)'', ''Inactive (Face Missing)'',
      ''Not Awake'', ''Not Awake'']
   \<and> face_lost_time (snd (presence_run absent_frames (init_face_presence 50))) = Some 100
   \<and> face_lost_time (snd (check_face_presence 112 (Some 1)
        (snd (presence_run absent_frames (init_face_presence 50))))) = None"
proof -
  have "short_absence_threshold (init_face_presence 50) \<le> long_absence_threshold (init_face_presence 50)"
    "face_lost_time (init_face_presence 50) = None"
    "list_all absent ((100, Some 0) # tl absent_frames)"
    "sorted (map fst ((100, Some 0) # tl absent_frames))"
    by (simp_all add: init_face_presence_def absent_frames_def absent_def)
  from detector_absence_progression [OF this]
  show ?thesis
    by (simp add: absent_frames_def absence_status_def init_face_presence_def)
qed

text \<open>
  Claim C10.  A \<^verbatim>\<open>None\<close> image is handled by \<^const>\<open>handle_no_face\<close>: the call returns
  one of the three statuses (no error value exists), exactly as for an image without a
  detection, and a feed that is \<^verbatim>\<open>None\<close> from the start of an absence runs through the
  same progression by elapsed time, with the timer started at the first frame.
\<close>

theorem none_image_is_absence:
  assumes "short_absence_threshold d \<le> long_absence_threshold d"
    and "face_lost_time d = None"
  shows "check_face_presence now None d0 = handle_no_face now d0
       \<and> check_face_presence now None d0 = check_face_presence now (Some 0) d0
       \<and> fst (check_face_presence now None d0)
            \<in> {''Active'', ''Inactive (Face Missing)'', ''Not Awake''}
       \<and> fst (presence_run (map (\<lambda>t. (t, None)) (t0 # ts)) d) =
            map (\<lambda>t. absence_status d (t - t0)) (t0 # ts)
       \<and> face_lost_time (snd (presence_run (map (\<lambda>t. (t, None)) (t0 # ts)) d)) = Some t0"
proof -
  have a: "list_all absent ((t0, None) # map (\<lambda>t. (t, None)) ts)"
    by (induction ts) (simp_all add: absent_def)
  have "fst (check_face_presence now None d0)
            \<in> {''Active'', ''Inactive (Face Missing)'', ''Not Awake''}"
    by (simp add: check_face_presence_def handle_no_face_def Let_def)
  with presence_run_absent [OF assms a] show ?thesis
    by (simp add: check_face_presence_def comp_def)
qed

text \<open>
  Eleven seconds of \<^verbatim>\<open>None\<close> images on a fresh detector.
\<close>

theorem none_image_is_absence_witness:
  "fst (presence_run (map (\<lambda>t. (t, None)) [0, 2, 3, 5, 10, 11]) (init_face_presence 0)) =
     [''Active'', ''Active'', ''Inactive (Face Missing)'', ''Inactive (Face Missing)'',
      ''Not Awake'', ''Not Awake'']"
proof -
  have "short_absence_threshold (init_face_presence 0) \<le> long_absence_threshold (init_face_presence 0)"
    "face_lost_time (init_face_presence 0) = None"
    by (simp_all add: init_face_presence_def)
  note w = none_image_is_absence [OF this, of 0 "init_face_presence 0" 0 "[2, 3, 5, 10, 11]"]
  have "fst (presence_run (map (\<lambda>t. (t, None)) [0, 2, 3, 5, 10, 11]) (init_face_presence 0)) =
      map (\<lambda>t. absence_status (init_face_presence 0) (t - 0)) [0, 2, 3, 5, 10, 11]"
    by (rule w [THEN conjunct2, THEN conjunct2, THEN conjunct2, THEN conjunct1])
  also have "\<dots> = [''Active'', ''Active'', ''Inactive (Face Missing)'',
      ''Inactive (Face Missing)'', ''Not Awake'', ''Not Awake'']"
    by (simp add: absence_status_def init_face_presence_def)
  finally show ?thesis .
qed

section \<open>Status classifier: counters\<close>

lemma determine_status_counters:
  "drowsy_counter (snd (determine_status_simple ear mar m)) =
     (if ear < 22 / 100 then drowsy_counter m + 1 else 0)
   \<and> yawn_counter (snd (determine_status_simple ear mar m)) =
     (if ear < 22 / 100 then 0 else if mar > 6 / 10 then yawn_counter m + 1 else 0)"
  by (simp add: determine_status_simple_def Let_def)

text \<open>
  Claim C8.  On every call of the status classifier, in any state: when the drowsy
  condition holds (EAR below 0.22) the drowsy counter is incremented and the yawn
  counter is set to 0; otherwise, when the yawn condition holds (MAR above 0.6), the
  yawn counter is incremented and the drowsy counter is set to 0; otherwise both are
  set to 0.  So after the call at least one of the two counters is 0.
\<close>

theorem counters_mutually_exclusive:
  "(ear < 22 / 100 \<longrightarrow>
      drowsy_counter (snd (determine_status_simple ear mar m)) = drowsy_counter m + 1
      \<and> yawn_counter (snd (determine_status_simple ear mar m)) = 0)
   \<and> (\<not> ear < 22 / 100 \<and> mar > 6 / 10 \<longrightarrow>
      yawn_counter (snd (determine_status_simple ear mar m)) = yawn_counter m + 1
      \<and> drowsy_counter (snd (determine_status_simple ear mar m)) = 0)
   \<and> (\<not> ear < 22 / 100 \<and> \<not> mar > 6 / 10 \<longrightarrow>
      yawn_counter (snd (determine_status_simple ear mar m)) = 0
      \<and> drowsy_counter (snd (determine_status_simple ear mar m)) = 0)
   \<and> (drowsy_counter (snd (determine_status_simple ear mar m)) = 0
        \<or> yawn_counter (snd (determine_status_simple ear mar m)) = 0)"
  by (simp add: determine_status_counters)

text \<open>
  A drowsy frame on a monitor whose yawn counter is 2, and a yawn frame on a monitor
  whose drowsy counter is 4.
\<close>

theorem counters_mutually_exclusive_witness:
  "drowsy_counter (snd (determine_status_simple (15 / 100) (7 / 10)
       ((init_monitor 0 0 (init_emergency_wakeup True True True))\<lparr>yawn_counter := 2\<rparr>))) = 1
   \<and> yawn_counter (snd (determine_status_simple (15 / 100) (7 / 10)
       ((init_monitor 0 0 (init_emergency_wakeup True True True))\<lparr>yawn_counter := 2\<rparr>))) = 0
   \<and> yawn_counter (snd (determine_status_simple (3 / 10) (7 / 10)
       ((init_monitor 0 0 (init_emergency_wakeup True True True))\<lparr>drowsy_counter := 4\<rparr>))) = 1
   \<and> drowsy_counter (snd (determine_status_simple (3 / 10) (7 / 10)
       ((init_monitor 0 0 (init_emergency_wakeup True True True))\<lparr>drowsy_counter := 4\<rparr>))) = 0"
  using counters_mutually_exclusive [of "15 / 100" "7 / 10"
      "(init_monitor 0 0 (init_emergency_wakeup True True True))\<lparr>yawn_counter := 2\<rparr>"]
    counters_mutually_exclusive [of "3 / 10" "7 / 10"
      "(init_monitor 0 0 (init_emergency_wakeup True True True))\<lparr>drowsy_counter := 4\<rparr>"]
  by (simp add: init_monitor_def)

lemma determine_status_drowsy_step:
  assumes "ear < 22 / 100" and "0 < yawn_threshold m"
  shows "determine_status_simple ear mar m =
      (if drowsy_counter m + 1 \<ge> drowsy_threshold m then ''Drowsy'' else ''Active'',
       m\<lparr>drowsy_counter := drowsy_counter m + 1, yawn_counter := 0\<rparr>)"
  using assms by (simp add: determine_status_simple_def Let_def)

lemma status_run_drowsy:
  assumes "list_all (\<lambda>f. fst f < 22 / 100) fs" and "0 < yawn_threshold m"
  shows "fst (status_run fs m) =
           map (\<lambda>k. if drowsy_counter m + int k + 1 \<ge> drowsy_threshold m
                     then ''Drowsy'' else ''Active'') [0..<length fs]"
  using assms
proof (induction fs arbitrary: m)
  case Nil
  then show ?case by simp
next
  case (Cons f fs)
  obtain ear mar where f: "f = (ear, mar)" by (cases f)
  with Cons.prems have ear: "ear < 22 / 100" and rest: "list_all (\<lambda>f. fst f < 22 / 100) fs"
    by simp_all
  let ?m1 = "m\<lparr>drowsy_counter := drowsy_counter m + 1, yawn_counter := 0\<rparr>"
  note step = determine_status_drowsy_step [OF ear Cons.prems(2), of mar]
  have ih: "fst (status_run fs ?m1) =
           map (\<lambda>k. if drowsy_counter ?m1 + int k + 1 \<ge> drowsy_threshold ?m1
                     then ''Drowsy'' else ''Active'') [0..<length fs]"
    using rest Cons.prems(2) by (intro Cons.IH) simp_all
  have "[0..<length (f # fs)] = 0 # map Suc [0..<length fs]"
    by (simp add: upt_conv_Cons map_Suc_upt del: upt_Suc)
  then show ?case
    using step ih f by (simp add: split_beta comp_def add.assoc add.commute del: upt_Suc)
qed

text \<open>
  Claim C4.  From a drowsy counter of 0, a run of single-face frames whose EAR is below
  0.22 is classified frame by frame: frame \<open>k + 1\<close> is "Drowsy" exactly when
  \<open>k + 1\<close> has reached the drowsy threshold (5 in the monitor as constructed) and
  "Active" before; so "Drowsy" comes first on the frame whose number is the threshold
  and stays on every later frame of the run.  (The yawn threshold is positive: it is 3.)
\<close>

theorem drowsy_on_nth_frame:
  assumes "drowsy_counter m = 0" and "0 < yawn_threshold m"
    and "list_all (\<lambda>f. fst f < 22 / 100) fs"
  shows "length (fst (status_run fs m)) = length fs
       \<and> (\<forall>k < length fs.
            fst (status_run fs m) ! k =
              (if int (k + 1) \<ge> drowsy_threshold m then ''Drowsy'' else ''Active''))"
  using status_run_drowsy [OF assms(3,2)] assms(1)
  by (simp add: add.commute)

text \<open>
  The specification's scenario: ten frames with EAR 0.15 on the monitor as constructed.
\<close>

theorem drowsy_on_nth_frame_witness:
  "length (fst (status_run drowsy_frames (init_monitor 0 0 (init_emergency_wakeup True True True)))) = 10
   \<and> fst (status_run drowsy_frames (init_monitor 0 0 (init_emergency_wakeup True True True))) ! 0 = ''Active''
   \<and> fst (status_run drowsy_frames (init_monitor 0 0 (init_emergency_wakeup True True True))) ! 3 = ''Active''
   \<and> fst (status_run drowsy_frames (init_monitor 0 0 (init_emergency_wakeup True True True))) ! 4 = ''Drowsy''
   \<and> fst (status_run drowsy_frames (init_monitor 0 0 (init_emergency_wakeup True True True))) ! 9 = ''Drowsy''"
proof -
  let ?m = "init_monitor 0 0 (init_emergency_wakeup True True True)"
  have h: "drowsy_counter ?m = 0" "0 < yawn_threshold ?m"
      "list_all (\<lambda>f. fst f < 22 / 100) drowsy_frames"
    by (simp_all add: init_monitor_def list_all_iff drowsy_frames_def)
  note w = drowsy_on_nth_frame [OF h]
  have th: "drowsy_threshold ?m = 5" by (simp add: init_monitor_def)
  have len: "length drowsy_frames = 10" by (simp add: drowsy_frames_def)
  note at = w [THEN conjunct2, rule_format, unfolded len th]
  show ?thesis
    using w [THEN conjunct1] at [of 0] at [of 3] at [of 4] at [of 9] len by simp
qed

section \<open>Emergency escalator: idle stop and repeated trigger\<close>

lemma stop_emergency_idle: "\<not> is_emergency_active e \<Longrightarrow> stop_emergency e = e"
  by (simp add: stop_emergency_def)

lemma stop_emergency_inactive: "\<not> is_emergency_active (stop_emergency e)"
  by (simp add: stop_emergency_def)

lemma trigger_emergency_active: "is_emergency_active e \<Longrightarrow> trigger_emergency alive e = e"
  by (simp add: trigger_emergency_def)

text \<open>
  Claim C7.  Stopping an escalator that is not active returns it unchanged, field by
  field; triggering one that is already active returns it unchanged; stopping twice is
  stopping once, since a stopped escalator is not active.  Neither function has an
  error value.
\<close>

theorem stop_idle_trigger_active_noop:
  "(\<not> is_emergency_active e \<longrightarrow> stop_emergency e = e)
   \<and> (is_emergency_active e \<longrightarrow> trigger_emergency alive e = e)
   \<and> stop_emergency (stop_emergency e) = stop_emergency e
   \<and> \<not> is_emergency_active (stop_emergency e)"
  using stop_emergency_idle [of "stop_emergency e"]
  by (simp add: stop_emergency_idle trigger_emergency_active stop_emergency_inactive)

text \<open>
  On the escalator as constructed: a stop while idle, then a trigger, a second trigger
  while active, and two stops.
\<close>

theorem stop_idle_trigger_active_noop_witness:
  "stop_emergency (init_emergency_wakeup True True True) = init_emergency_wakeup True True True
   \<and> trigger_emergency (True, False)
         (trigger_emergency (False, False) (init_emergency_wakeup True True True)) =
       trigger_emergency (False, False) (init_emergency_wakeup True True True)
   \<and> is_emergency_active (trigger_emergency (False, False) (init_emergency_wakeup True True True))
   \<and> stop_emergency (stop_emergency
         (trigger_emergency (False, False) (init_emergency_wakeup True True True))) =
       stop_emergency (trigger_emergency (False, False) (init_emergency_wakeup True True True))"
proof -
  let ?e0 = "init_emergency_wakeup True True True"
  let ?e1 = "trigger_emergency (False, False) ?e0"
  have idle: "\<not> is_emergency_active ?e0" by (simp add: init_emergency_wakeup_def)
  have act: "is_emergency_active ?e1"
    by (simp add: init_emergency_wakeup_def trigger_emergency_def play_siren_def
        start_screen_flash_def speak_wake_up_message_def)
  from stop_idle_trigger_active_noop [of ?e0] idle
  have a: "stop_emergency ?e0 = ?e0" by blast
  from stop_idle_trigger_active_noop [of ?e1 "(True, False)"] act
  have b: "trigger_emergency (True, False) ?e1 = ?e1"
    and c: "stop_emergency (stop_emergency ?e1) = stop_emergency ?e1" by blast+
  from a b c act show ?thesis by blast
qed

section \<open>Notification sink: repetition interval and priority\<close>

lemma table_nonempty: "list_all (\<lambda>p. snd p \<noteq> []) status_messages_table"
  by (simp add: status_messages_table_def)

lemma map_of_nonempty:
  "list_all (\<lambda>p. snd p \<noteq> []) t \<Longrightarrow> map_of t k = Some ms \<Longrightarrow> ms \<noteq> []"
  by (induction t) (auto split: if_splits)

lemma messages_for_table:
  "status_messages a = status_messages_table \<Longrightarrow> messages_for a status \<noteq> []"
  using map_of_nonempty [OF table_nonempty, of status]
  by (auto simp: messages_for_def split: option.splits)

lemma speak_status_repeated:
  assumes "last_spoken_status a = Some status"
    and "now - last_speech_time a < min_speech_interval a"
  shows "speak_status now pick status a = Inr a"
  using assms by (simp add: speak_status_def)

lemma speak_status_busy:
  assumes "is_speaking a" and "status \<notin> set critical_statuses"
  shows "speak_status now pick status a = Inr a"
  using assms by (simp add: speak_status_def)

lemma speak_status_delivered:
  assumes "tts_engine a"
    and "\<not> (last_spoken_status a = Some status
            \<and> now - last_speech_time a < min_speech_interval a)"
    and "\<not> is_speaking a \<or> status \<in> set critical_statuses"
    and "messages_for a status \<noteq> []"
  shows "\<exists>message. message \<in> set (messages_for a status) \<and>
           speak_status now pick status a =
             Inr (a\<lparr>speech_queue :=
                       (if status \<in> set critical_statuses then [(message, High)]
                        else speech_queue a @ [(message, Normal)]),
                     last_spoken_status := Some status, last_speech_time := now\<rparr>)"
proof -
  from assms(4) obtain m0 ms where ms: "messages_for a status = m0 # ms"
    by (cases "messages_for a status") auto
  let ?message = "if length (m0 # ms) > 1 then (m0 # ms) ! (pick mod length (m0 # ms)) else m0"
  have "?message \<in> set (m0 # ms)"
  proof (cases "length (m0 # ms) > 1")
    case True
    have "pick mod length (m0 # ms) < length (m0 # ms)" by simp
    then have "(m0 # ms) ! (pick mod length (m0 # ms)) \<in> set (m0 # ms)" by (rule nth_mem)
    with True show ?thesis by simp
  next
    case False
    then show ?thesis by simp
  qed
  moreover have "speak_status now pick status a =
             Inr (a\<lparr>speech_queue :=
                       (if status \<in> set critical_statuses then [(?message, High)]
                        else speech_queue a @ [(?message, Normal)]),
                     last_spoken_status := Some status, last_speech_time := now\<rparr>)"
    using assms(1-3) ms by (auto simp: speak_status_def Let_def)
  ultimately show ?thesis unfolding ms by (intro exI [of _ ?message] conjI)
qed

text \<open>
  Claim C9, as the code has it.  With a working voice engine and the constructor's
  message table: a notification whose status is the last delivered one, less than
  \<open>min_speech_interval\<close> (3 seconds) after that delivery, leaves the sink unchanged,
  whatever its priority.  Outside that case a critical status (high priority) is
  delivered even while the sink is speaking, and replaces the queue; any other status is
  appended to the queue when the sink is not speaking and dropped when it is.
\<close>

theorem repeated_status_suppressed_any_priority:
  assumes "tts_engine a" and "status_messages a = status_messages_table"
  shows "(last_spoken_status a = Some status
            \<and> now - last_speech_time a < min_speech_interval a
          \<longrightarrow> speak_status now pick status a = Inr a)
       \<and> (\<not> (last_spoken_status a = Some status
               \<and> now - last_speech_time a < min_speech_interval a)
            \<and> status \<in> set critical_statuses
          \<longrightarrow> (\<exists>message. message \<in> set (messages_for a status) \<and>
                 speak_status now pick status a =
                   Inr (a\<lparr>speech_queue := [(message, High)],
                           last_spoken_status := Some status, last_speech_time := now\<rparr>)))
       \<and> (\<not> (last_spoken_status a = Some status
               \<and> now - last_speech_time a < min_speech_interval a)
            \<and> status \<notin> set critical_statuses \<and> \<not> is_speaking a
          \<longrightarrow> (\<exists>message. message \<in> set (messages_for a status) \<and>
                 speak_status now pick status a =
                   Inr (a\<lparr>speech_queue := speech_queue a @ [(message, Normal)],
                           last_spoken_status := Some status, last_speech_time := now\<rparr>)))
       \<and> (status \<notin> set critical_statuses \<and> is_speaking a
          \<longrightarrow> speak_status now pick status a = Inr a)"
proof -
  note ne = messages_for_table [OF assms(2), of status]
  have 1: "last_spoken_status a = Some status
            \<and> now - last_speech_time a < min_speech_interval a
          \<longrightarrow> speak_status now pick status a = Inr a"
    by (simp add: speak_status_repeated)
  have 4: "status \<notin> set critical_statuses \<and> is_speaking a
          \<longrightarrow> speak_status now pick status a = Inr a"
    by (simp add: speak_status_busy)
  have 2: "\<not> (last_spoken_status a = Some status
               \<and> now - last_speech_time a < min_speech_interval a)
            \<and> status \<in> set critical_statuses
          \<longrightarrow> (\<exists>message. message \<in> set (messages_for a status) \<and>
                 speak_status now pick status a =
                   Inr (a\<lparr>speech_queue := [(message, High)],
                           last_spoken_status := Some status, last_speech_time := now\<rparr>))"
  proof
    assume h: "\<not> (last_spoken_status a = Some status
               \<and> now - last_speech_time a < min_speech_interval a)
            \<and> status \<in> set critical_statuses"
    then have "\<not> is_speaking a \<or> status \<in> set critical_statuses" by simp
    from speak_status_delivered [OF assms(1) h [THEN conjunct1] this ne, of pick] h
    show "\<exists>message. message \<in> set (messages_for a status) \<and>
                 speak_status now pick status a =
                   Inr (a\<lparr>speech_queue := [(message, High)],
                           last_spoken_status := Some status, last_speech_time := now\<rparr>)"
      by simp
  qed
  have 3: "\<not> (last_spoken_status a = Some status
               \<and> now - last_speech_time a < min_speech_interval a)
            \<and> status \<notin> set critical_statuses \<and> \<not> is_speaking a
          \<longrightarrow> (\<exists>message. message \<in> set (messages_for a status) \<and>
                 speak_status now pick status a =
                   Inr (a\<lparr>speech_queue := speech_queue a @ [(message, Normal)],
                           last_spoken_status := Some status, last_speech_time := now\<rparr>))"
  proof
    assume h: "\<not> (last_spoken_status a = Some status
               \<and> now - last_speech_time a < min_speech_interval a)
            \<and> status \<notin> set critical_statuses \<and> \<not> is_speaking a"
    then have "\<not> is_speaking a \<or> status \<in> set critical_statuses" by simp
    from speak_status_delivered [OF assms(1) h [THEN conjunct1] this ne, of pick] h
    show "\<exists>message. message \<in> set (messages_for a status) \<and>
                 speak_status now pick status a =
                   Inr (a\<lparr>speech_queue := speech_queue a @ [(message, Normal)],
                           last_spoken_status := Some status, last_speech_time := now\<rparr>)"
      by simp
  qed
  from 1 2 3 4 show ?thesis by blast
qed

text \<open>
  Claim C9 as stated fails: "Drowsy" has high priority, is delivered at second 100, and
  the same notification one second later is suppressed, the queue keeping its single
  entry.
\<close>

theorem high_priority_repeat_suppressed:
  "speak_status 100 0 ''Drowsy'' (init_ai_feedback True) = Inr spoke_drowsy
   \<and> ''Drowsy'' \<in> set critical_statuses
   \<and> speak_status 101 1 ''Drowsy'' spoke_drowsy = Inr spoke_drowsy
   \<and> speech_queue spoke_drowsy = [(''You appear drowsy. Please stay awake.'', High)]"
  by (simp add: speak_status_def init_ai_feedback_def status_messages_table_def
      spoke_drowsy_def critical_statuses_def messages_for_def)

text \<open>
  The sink after "Drowsy" at second 100: the repetition at second 101 is suppressed;
  at second 103, while the sink is speaking, it is delivered with high priority.
\<close>

theorem repeated_status_suppressed_any_priority_witness:
  "speak_status 101 1 ''Drowsy'' spoke_drowsy = Inr spoke_drowsy
   \<and> (\<exists>message. message \<in> set (messages_for speaking_drowsy ''Drowsy'') \<and>
         speak_status 103 1 ''Drowsy'' speaking_drowsy =
           Inr (speaking_drowsy\<lparr>speech_queue := [(message, High)],
                  last_spoken_status := Some ''Drowsy'', last_speech_time := 103\<rparr>))"
proof -
  have h: "tts_engine spoke_drowsy" "status_messages spoke_drowsy = status_messages_table"
    "tts_engine speaking_drowsy"
    "status_messages speaking_drowsy = status_messages_table"
    by (simp_all add: speaking_drowsy_def spoke_drowsy_def init_ai_feedback_def)
  have a: "speak_status 101 1 ''Drowsy'' spoke_drowsy = Inr spoke_drowsy"
    using repeated_status_suppressed_any_priority [OF h(1,2), of "''Drowsy''" 101 1]
    by (simp add: spoke_drowsy_def init_ai_feedback_def)
  have c: "\<exists>message. message \<in> set (messages_for speaking_drowsy ''Drowsy'') \<and>
         speak_status 103 1 ''Drowsy'' speaking_drowsy =
           Inr (speaking_drowsy\<lparr>speech_queue := [(message, High)],
                  last_spoken_status := Some ''Drowsy'', last_speech_time := 103\<rparr>)"
    using repeated_status_suppressed_any_priority [OF h(3,4), of "''Drowsy''" 103 1]
    by (simp add: speaking_drowsy_def spoke_drowsy_def init_ai_feedback_def critical_statuses_def)
  from a c show ?thesis by blast
qed

section \<open>Extractors: smoothing and bounds\<close>

lemma trailing_length: "length (trailing n xs) = min n (length xs)"
  by (simp add: trailing_def)

lemma push_history_trailing:
  "length h \<le> n \<Longrightarrow> push_history n h x = trailing n (h @ [x])"
  by (cases h) (auto simp: push_history_def trailing_def Let_def Suc_diff_le le_Suc_eq)

lemma trailing_append_trailing:
  "trailing n (trailing n xs @ ys) = trailing n (xs @ ys)"
proof -
  have "length xs + length ys - (length xs - n + n) + (length xs - n) =
        length xs + length ys - n"
    by arith
  then show ?thesis by (simp add: trailing_def min_def)
qed

lemma push_history_length: "length h \<le> n \<Longrightarrow> 0 < n \<Longrightarrow> length (push_history n h x) \<le> n"
  by (auto simp: push_history_def Let_def)

lemma push_history_nonempty: "0 < n \<Longrightarrow> push_history n h x \<noteq> []"
  by (cases h) (auto simp: push_history_def Let_def)

lemma sum_list_bounds:
  "list_all (\<lambda>x. lo \<le> x \<and> x \<le> hi) xs \<Longrightarrow>
     lo * real (length xs) \<le> sum_list xs \<and> sum_list xs \<le> hi * real (length xs)"
  by (induction xs) (auto simp: algebra_simps)

lemma mean_bounds:
  assumes "list_all (\<lambda>x. lo \<le> x \<and> x \<le> hi) xs" and "xs \<noteq> []"
  shows "lo \<le> mean xs \<and> mean xs \<le> hi"
proof -
  have pos: "0 < real (length xs)" using assms(2) by simp
  from sum_list_bounds [OF assms(1)] pos show ?thesis
    by (simp add: mean_def pos_le_divide_eq pos_divide_le_eq)
qed

lemma sum_list_nonneg': "list_all (\<lambda>x. 0 \<le> x) xs \<Longrightarrow> (0::real) \<le> sum_list xs"
  by (induction xs) auto

lemma mean_nonneg: "list_all (\<lambda>x. 0 \<le> x) xs \<Longrightarrow> 0 \<le> mean xs"
  by (simp add: mean_def sum_list_nonneg')

lemma push_history_all:
  "list_all P h \<Longrightarrow> P x \<Longrightarrow> list_all P (push_history n h x)"
  by (cases h) (auto simp: push_history_def Let_def)

lemma norm_diff_nonneg: "0 \<le> norm_diff p q"
  by (simp add: norm_diff_def)

lemma single_eye_bounds:
  assumes "0 \<le> et_last_ear tr" and "et_last_ear tr \<le> 1"
  shows "0 \<le> calculate_single_eye_ear tr lm pts \<and> calculate_single_eye_ear tr lm pts \<le> 1"
  using assms by (auto simp: calculate_single_eye_ear_def Let_def split: option.splits)

lemma single_eye_nonneg:
  assumes "0 \<le> et_last_ear tr"
  shows "0 \<le> calculate_single_eye_ear tr lm pts"
  using assms by (auto simp: calculate_single_eye_ear_def Let_def split: option.splits)

lemma compensate_nonneg: "0 \<le> ear \<Longrightarrow> 0 \<le> compensate_for_head_pose ear hp"
  by (simp add: compensate_for_head_pose_def Let_def)

lemma raw_ear_nonneg:
  assumes "0 \<le> et_last_ear tr"
  shows "0 \<le> raw_ear tr lm hp"
proof -
  have "0 \<le> (calculate_single_eye_ear tr lm left_eye_points
            + calculate_single_eye_ear tr lm right_eye_points) / 2"
    using single_eye_nonneg [OF assms, of lm left_eye_points]
      single_eye_nonneg [OF assms, of lm right_eye_points] by simp
  then show ?thesis
    by (auto simp: raw_ear_def Let_def compensate_nonneg split: option.splits)
qed

lemma raw_ear_unit:
  assumes "0 \<le> et_last_ear tr" and "et_last_ear tr \<le> 1" and "hp = None \<or> hp = Some []"
  shows "raw_ear tr lm hp \<le> 1"
proof -
  have "(calculate_single_eye_ear tr lm left_eye_points
            + calculate_single_eye_ear tr lm right_eye_points) / 2 \<le> 1"
    using single_eye_bounds [OF assms(1,2), of lm left_eye_points]
      single_eye_bounds [OF assms(1,2), of lm right_eye_points] by simp
  then show ?thesis
    using assms(3) by (auto simp: raw_ear_def Let_def)
qed

lemma calculate_ear_eq:
  "calculate_ear lm hp tr =
     (mean (push_history 8 (ear_history tr) (raw_ear tr lm hp)),
      tr\<lparr>ear_history := push_history 8 (ear_history tr) (raw_ear tr lm hp),
         et_last_ear := mean (push_history 8 (ear_history tr) (raw_ear tr lm hp))\<rparr>)"
  by (simp add: calculate_ear_def mean_def Let_def)

text \<open>Smoothing: the history after any number of frames holds the last eight samples.\<close>

lemma ear_run_smoothed:
  assumes "length (ear_history tr) \<le> 8" and "k < length fs"
  shows "snd (fst (ear_run fs tr) ! k) =
           mean (trailing 8 (ear_history tr @ take (Suc k) (map fst (fst (ear_run fs tr)))))"
  using assms
proof (induction fs arbitrary: tr k)
  case Nil
  then show ?case by simp
next
  case (Cons f fs)
  obtain lm hp where f: "f = (lm, hp)" by (cases f)
  let ?raw = "raw_ear tr lm hp"
  let ?h1 = "push_history 8 (ear_history tr) ?raw"
  let ?tr1 = "tr\<lparr>ear_history := ?h1, et_last_ear := mean ?h1\<rparr>"
  have run: "fst (ear_run (f # fs) tr) = (?raw, mean ?h1) # fst (ear_run fs ?tr1)"
    by (simp add: f calculate_ear_eq split_beta)
  have h1: "?h1 = trailing 8 (ear_history tr @ [?raw])"
    using Cons.prems(1) by (rule push_history_trailing)
  show ?case
  proof (cases k)
    case 0
    then show ?thesis by (simp add: run h1)
  next
    case (Suc j)
    with Cons.prems have j: "j < length fs" by simp
    have len: "length (ear_history ?tr1) \<le> 8"
      using Cons.prems(1) by (simp add: push_history_length)
    from Cons.IH [OF len j]
    have "snd (fst (ear_run fs ?tr1) ! j) =
            mean (trailing 8 (?h1 @ take (Suc j) (map fst (fst (ear_run fs ?tr1)))))"
      by simp
    then show ?thesis
      by (simp add: run Suc h1 trailing_append_trailing)
  qed
qed

lemma ear_run_nonneg:
  assumes "0 \<le> et_last_ear tr" and "list_all (\<lambda>x. 0 \<le> x) (ear_history tr)"
  shows "list_all (\<lambda>p. 0 \<le> snd p) (fst (ear_run fs tr))"
  using assms
proof (induction fs arbitrary: tr)
  case Nil
  then show ?case by simp
next
  case (Cons f fs)
  obtain lm hp where f: "f = (lm, hp)" by (cases f)
  let ?raw = "raw_ear tr lm hp"
  let ?h1 = "push_history 8 (ear_history tr) ?raw"
  let ?tr1 = "tr\<lparr>ear_history := ?h1, et_last_ear := mean ?h1\<rparr>"
  have run: "fst (ear_run (f # fs) tr) = (?raw, mean ?h1) # fst (ear_run fs ?tr1)"
    by (simp add: f calculate_ear_eq split_beta)
  have all: "list_all (\<lambda>x. 0 \<le> x) ?h1"
    using Cons.prems(2) raw_ear_nonneg [OF Cons.prems(1)] by (rule push_history_all)
  then have m: "0 \<le> mean ?h1" by (rule mean_nonneg)
  have "list_all (\<lambda>p. 0 \<le> snd p) (fst (ear_run fs ?tr1))"
    using m all by (intro Cons.IH) simp_all
  with m show ?case by (simp add: run)
qed

lemma ear_run_unit:
  assumes "0 \<le> et_last_ear tr" and "et_last_ear tr \<le> 1"
    and "list_all (\<lambda>x. 0 \<le> x \<and> x \<le> 1) (ear_history tr)"
    and "list_all uncompensated fs"
  shows "list_all (\<lambda>p. snd p \<le> 1) (fst (ear_run fs tr))"
  using assms
proof (induction fs arbitrary: tr)
  case Nil
  then show ?case by simp
next
  case (Cons f fs)
  obtain lm hp where f: "f = (lm, hp)" by (cases f)
  let ?raw = "raw_ear tr lm hp"
  let ?h1 = "push_history 8 (ear_history tr) ?raw"
  let ?tr1 = "tr\<lparr>ear_history := ?h1, et_last_ear := mean ?h1\<rparr>"
  have run: "fst (ear_run (f # fs) tr) = (?raw, mean ?h1) # fst (ear_run fs ?tr1)"
    by (simp add: f calculate_ear_eq split_beta)
  from Cons.prems(4) have uf: "uncompensated f" and rest: "list_all uncompensated fs"
    by simp_all
  from uf f have hp: "hp = None \<or> hp = Some []"
    by (simp add: uncompensated_def)
  have raw: "0 \<le> ?raw \<and> ?raw \<le> 1"
    using raw_ear_nonneg [OF Cons.prems(1)] raw_ear_unit [OF Cons.prems(1,2) hp] by simp
  have all: "list_all (\<lambda>x. 0 \<le> x \<and> x \<le> 1) ?h1"
    using Cons.prems(3) raw by (rule push_history_all)
  have m: "0 \<le> mean ?h1 \<and> mean ?h1 \<le> 1"
    using all by (rule mean_bounds) (simp add: push_history_nonempty)
  have "list_all (\<lambda>p. snd p \<le> 1) (fst (ear_run fs ?tr1))"
    using m all rest by (intro Cons.IH) simp_all
  with m show ?case by (simp add: run)
qed

lemma collect_points_eq:
  "collect_points lm idxs =
     (if list_all (\<lambda>i. i < length lm) idxs then Some (map ((!) lm) idxs) else None)"
  by (induction idxs) simp_all

lemma mouth_present: "308 < length lm \<Longrightarrow> list_all (\<lambda>i. i < length lm) mouth_points"
  by (simp add: mouth_points_def)

lemma mouth_missing: "length lm \<le> 308 \<Longrightarrow> collect_points lm mouth_points = None"
  by (simp add: collect_points_eq mouth_points_def)

lemma left_eye_missing: "length lm \<le> 160 \<Longrightarrow> collect_points lm left_eye_points = None"
  by (simp add: collect_points_eq left_eye_points_def)

lemma right_eye_missing: "length lm \<le> 387 \<Longrightarrow> collect_points lm right_eye_points = None"
  by (simp add: collect_points_eq right_eye_points_def)

lemma calculate_mar_eq:
  assumes "308 < length lm"
  shows "calculate_mar lm yd =
     (mean (push_history 10 (mar_history yd) (mar_sample yd lm)),
      yd\<lparr>mar_history := push_history 10 (mar_history yd) (mar_sample yd lm),
         yd_last_mar := mean (push_history 10 (mar_history yd) (mar_sample yd lm))\<rparr>)"
proof -
  have c: "collect_points lm mouth_points = Some (map ((!) lm) mouth_points)"
    using mouth_present [OF assms] by (simp add: collect_points_eq)
  have "length (map ((!) lm) mouth_points) = 6" by (simp add: mouth_points_def)
  with c show ?thesis
    by (simp add: calculate_mar_def mar_sample_def mean_def Let_def)
qed

lemma raw_mar_nonneg:
  assumes "0 \<le> yd_last_mar yd"
  shows "0 \<le> raw_mar yd cs"
  using assms by (simp add: raw_mar_def Let_def norm_diff_nonneg)

lemma mar_sample_nonneg: "0 \<le> yd_last_mar yd \<Longrightarrow> 0 \<le> mar_sample yd lm"
  by (simp add: mar_sample_def raw_mar_nonneg split: option.splits)

lemma mar_run_smoothed:
  assumes "length (mar_history yd) \<le> 10" and "k < length fs"
    and "list_all (\<lambda>lm. 308 < length lm) fs"
  shows "snd (fst (mar_run fs yd) ! k) =
           mean (trailing 10 (mar_history yd @ take (Suc k) (map fst (fst (mar_run fs yd)))))"
  using assms
proof (induction fs arbitrary: yd k)
  case Nil
  then show ?case by simp
next
  case (Cons lm fs)
  let ?raw = "mar_sample yd lm"
  let ?h1 = "push_history 10 (mar_history yd) ?raw"
  let ?yd1 = "yd\<lparr>mar_history := ?h1, yd_last_mar := mean ?h1\<rparr>"
  from Cons.prems(3) have lm: "308 < length lm" and rest: "list_all (\<lambda>lm. 308 < length lm) fs"
    by simp_all
  have run: "fst (mar_run (lm # fs) yd) = (?raw, mean ?h1) # fst (mar_run fs ?yd1)"
    by (simp add: calculate_mar_eq [OF lm] split_beta)
  have h1: "?h1 = trailing 10 (mar_history yd @ [?raw])"
    using Cons.prems(1) by (rule push_history_trailing)
  show ?case
  proof (cases k)
    case 0
    then show ?thesis by (simp add: run h1 del: mar_run.simps)
  next
    case (Suc j)
    with Cons.prems have j: "j < length fs" by simp
    have len: "length (mar_history ?yd1) \<le> 10"
      using Cons.prems(1) by (simp add: push_history_length)
    from Cons.IH [OF len j rest]
    have "snd (fst (mar_run fs ?yd1) ! j) =
            mean (trailing 10 (?h1 @ take (Suc j) (map fst (fst (mar_run fs ?yd1)))))"
      by simp
    then show ?thesis
      by (simp add: run Suc h1 trailing_append_trailing del: mar_run.simps)
  qed
qed

lemma mar_run_nonneg:
  assumes "0 \<le> yd_last_mar yd" and "list_all (\<lambda>x. 0 \<le> x) (mar_history yd)"
    and "list_all (\<lambda>lm. 308 < length lm) fs"
  shows "list_all (\<lambda>p. 0 \<le> snd p) (fst (mar_run fs yd))"
  using assms
proof (induction fs arbitrary: yd)
  case Nil
  then show ?case by simp
next
  case (Cons lm fs)
  let ?raw = "mar_sample yd lm"
  let ?h1 = "push_history 10 (mar_history yd) ?raw"
  let ?yd1 = "yd\<lparr>mar_history := ?h1, yd_last_mar := mean ?h1\<rparr>"
  from Cons.prems(3) have lm: "308 < length lm" and rest: "list_all (\<lambda>lm. 308 < length lm) fs"
    by simp_all
  have run: "fst (mar_run (lm # fs) yd) = (?raw, mean ?h1) # fst (mar_run fs ?yd1)"
    by (simp add: calculate_mar_eq [OF lm] split_beta)
  have all: "list_all (\<lambda>x. 0 \<le> x) ?h1"
    using Cons.prems(2) mar_sample_nonneg [OF Cons.prems(1)] by (rule push_history_all)
  then have m: "0 \<le> mean ?h1" by (rule mean_nonneg)
  have "list_all (\<lambda>p. 0 \<le> snd p) (fst (mar_run fs ?yd1))"
    using m all rest by (intro Cons.IH) simp_all
  with m show ?case by (simp add: run del: mar_run.simps)
qed

lemma ear_run_length: "length (fst (ear_run fs tr)) = length fs"
  by (induction fs arbitrary: tr) (auto simp: split_beta)

lemma mar_run_length: "length (fst (mar_run fs yd)) = length fs"
  by (induction fs arbitrary: yd) (simp_all add: split_beta)

text \<open>
  Claim C5, as the code has it.  From fresh extractors, for every sequence of frames
  and every frame \<open>k + 1\<close> of it: the EAR returned is the mean of the last
  \<open>min (k + 1) 8\<close> raw samples and is not negative; it is at most 1 when no frame
  carries a head-pose compensation.  For frames that have every mouth landmark (more
  than 308 points), the MAR returned for frame \<open>j + 1\<close> is the mean of the last
  \<open>min (j + 1) 10\<close> raw samples and is not negative.
\<close>

theorem smoothed_ratios:
  assumes "k < length fs" and "j < length gs"
    and "list_all (\<lambda>lm. 308 < length lm) gs"
  shows "snd (fst (ear_run fs init_eye_tracker) ! k) =
           mean (trailing 8 (take (Suc k) (map fst (fst (ear_run fs init_eye_tracker)))))
       \<and> length (trailing 8 (take (Suc k) (map fst (fst (ear_run fs init_eye_tracker))))) =
           min (Suc k) 8
       \<and> 0 \<le> snd (fst (ear_run fs init_eye_tracker) ! k)
       \<and> (list_all uncompensated fs \<longrightarrow> snd (fst (ear_run fs init_eye_tracker) ! k) \<le> 1)
       \<and> snd (fst (mar_run gs init_yawn_detector) ! j) =
           mean (trailing 10 (take (Suc j) (map fst (fst (mar_run gs init_yawn_detector)))))
       \<and> length (trailing 10 (take (Suc j) (map fst (fst (mar_run gs init_yawn_detector))))) =
           min (Suc j) 10
       \<and> 0 \<le> snd (fst (mar_run gs init_yawn_detector) ! j)"
proof -
  have e1: "snd (fst (ear_run fs init_eye_tracker) ! k) =
           mean (trailing 8 (take (Suc k) (map fst (fst (ear_run fs init_eye_tracker)))))"
    using ear_run_smoothed [of init_eye_tracker k fs] assms(1)
    by (simp add: init_eye_tracker_def)
  have e2: "length (trailing 8 (take (Suc k) (map fst (fst (ear_run fs init_eye_tracker))))) =
           min (Suc k) 8"
    using assms(1) by (simp add: trailing_length ear_run_length min_def)
  have "list_all (\<lambda>p. 0 \<le> snd p) (fst (ear_run fs init_eye_tracker))"
    by (rule ear_run_nonneg) (simp_all add: init_eye_tracker_def)
  then have e3: "0 \<le> snd (fst (ear_run fs init_eye_tracker) ! k)"
    using assms(1) by (simp add: list_all_length ear_run_length)
  have e4: "list_all uncompensated fs \<longrightarrow> snd (fst (ear_run fs init_eye_tracker) ! k) \<le> 1"
  proof
    assume "list_all uncompensated fs"
    then have "list_all (\<lambda>p. snd p \<le> 1) (fst (ear_run fs init_eye_tracker))"
      by (intro ear_run_unit) (simp_all add: init_eye_tracker_def)
    then show "snd (fst (ear_run fs init_eye_tracker) ! k) \<le> 1"
      using assms(1) by (simp add: list_all_length ear_run_length)
  qed
  have m1: "snd (fst (mar_run gs init_yawn_detector) ! j) =
           mean (trailing 10 (take (Suc j) (map fst (fst (mar_run gs init_yawn_detector)))))"
    using mar_run_smoothed [of init_yawn_detector j gs] assms(2,3)
    by (simp add: init_yawn_detector_def)
  have m2: "length (trailing 10 (take (Suc j) (map fst (fst (mar_run gs init_yawn_detector))))) =
           min (Suc j) 10"
    using assms(2) by (simp add: trailing_length mar_run_length min_def)
  have "list_all (\<lambda>p. 0 \<le> snd p) (fst (mar_run gs init_yawn_detector))"
    using assms(3) by (intro mar_run_nonneg) (simp_all add: init_yawn_detector_def)
  then have m3: "0 \<le> snd (fst (mar_run gs init_yawn_detector) ! j)"
    using assms(2) by (simp add: list_all_length mar_run_length)
  from e1 e2 e3 e4 m1 m2 m3 show ?thesis by blast
qed

lemma sqrt_9: "sqrt 9 = 3"
  using real_sqrt_abs [of 3] by simp

lemma sqrt_100: "sqrt 100 = 10"
  using real_sqrt_abs [of 10] by simp

lemma attentive_face_nth:
  "i < 478 \<Longrightarrow> attentive_face ! i =
     (if i \<in> {158, 160, 385, 387} then (0, 3)
      else if i \<in> {133, 263} then (10, 0)
      else if i \<in> {18, 175} then (0, 1)
      else if i = 308 then (2, 0)
      else (0, 0))"
  by (simp add: attentive_face_def)

lemma attentive_face_length: "length attentive_face = 478"
  by (simp add: attentive_face_def)

lemma wide_eyes_nth:
  "i < 478 \<Longrightarrow> wide_eyes ! i =
     (if i \<in> {158, 160, 385, 387} then (0, 1)
      else if i \<in> {133, 263} then (1, 0)
      else (0, 0))"
  by (simp add: wide_eyes_def)

lemma wide_eyes_length: "length wide_eyes = 478"
  by (simp add: wide_eyes_def)

lemma attentive_eye:
  "calculate_single_eye_ear tr attentive_face left_eye_points = 3 / 10"
  "calculate_single_eye_ear tr attentive_face right_eye_points = 3 / 10"
  by (simp_all add: calculate_single_eye_ear_def collect_points_eq left_eye_points_def
      right_eye_points_def attentive_face_length attentive_face_nth norm_diff_def
      sqrt_9 sqrt_100 Let_def)

lemma attentive_raw_ear: "raw_ear tr attentive_face None = 3 / 10"
  by (simp add: raw_ear_def attentive_eye)

lemma attentive_mar_sample: "mar_sample yd attentive_face = 1 / 2"
  by (simp add: mar_sample_def raw_mar_def collect_points_eq mouth_points_def
      attentive_face_length attentive_face_nth norm_diff_def Let_def)

lemma wide_eye:
  "calculate_single_eye_ear tr wide_eyes left_eye_points = 1"
  "calculate_single_eye_ear tr wide_eyes right_eye_points = 1"
  by (simp_all add: calculate_single_eye_ear_def collect_points_eq left_eye_points_def
      right_eye_points_def wide_eyes_length wide_eyes_nth norm_diff_def Let_def)

lemma wide_raw_ear: "raw_ear tr wide_eyes (Some [(''pitch'', 15)]) = 11 / 10"
  by (simp add: raw_ear_def wide_eye compensate_for_head_pose_def pose_get_def)

lemma no_landmarks_raw_ear: "raw_ear tr [] None = 1 / 4"
  by (simp add: raw_ear_def calculate_single_eye_ear_def left_eye_points_def
      right_eye_points_def)

text \<open>
  Claim C5 as stated fails under head-pose compensation: the eyes are clamped to 1
  before the multiplier is applied, so a valid frame with pitch 15 returns 1.1.
\<close>

theorem compensated_ear_above_one:
  "list_all (\<lambda>i. i < length wide_eyes) (left_eye_points @ right_eye_points)
   \<and> fst (calculate_ear wide_eyes (Some [(''pitch'', 15)]) init_eye_tracker) = 11 / 10
   \<and> \<not> fst (calculate_ear wide_eyes (Some [(''pitch'', 15)]) init_eye_tracker) \<le> 1"
  by (simp add: calculate_ear_eq wide_raw_ear init_eye_tracker_def push_history_def mean_def
      wide_eyes_length left_eye_points_def right_eye_points_def)

lemma ear_frames_run:
  "fst (ear_run ear_frames init_eye_tracker) = [(3 / 10, 3 / 10), (1 / 4, 11 / 40)]"
  by (simp add: ear_frames_def calculate_ear_eq attentive_raw_ear no_landmarks_raw_ear
      init_eye_tracker_def push_history_def mean_def)

lemma mouth_frames_run:
  "fst (mar_run mouth_frames init_yawn_detector) = [(1 / 2, 1 / 2), (1 / 2, 1 / 2)]"
  by (simp add: mouth_frames_def calculate_mar_eq attentive_face_length attentive_mar_sample
      init_yawn_detector_def push_history_def mean_def)

text \<open>
  Two frames through each extractor: the second EAR is the mean of 0.3 and 0.25.
\<close>

theorem smoothed_ratios_witness:
  "fst (ear_run ear_frames init_eye_tracker) = [(3 / 10, 3 / 10), (1 / 4, 11 / 40)]
   \<and> snd (fst (ear_run ear_frames init_eye_tracker) ! 1) =
       mean (trailing 8 (take 2 (map fst (fst (ear_run ear_frames init_eye_tracker)))))
   \<and> snd (fst (ear_run ear_frames init_eye_tracker) ! 1) \<le> 1
   \<and> fst (mar_run mouth_frames init_yawn_detector) = [(1 / 2, 1 / 2), (1 / 2, 1 / 2)]
   \<and> snd (fst (mar_run mouth_frames init_yawn_detector) ! 1) =
       mean (trailing 10 (take 2 (map fst (fst (mar_run mouth_frames init_yawn_detector)))))
   \<and> 0 \<le> snd (fst (mar_run mouth_frames init_yawn_detector) ! 1)"
proof -
  have h: "1 < length ear_frames" "1 < length mouth_frames"
    "list_all (\<lambda>lm. 308 < length lm) mouth_frames"
    by (simp_all add: ear_frames_def mouth_frames_def attentive_face_length)
  have u: "list_all uncompensated ear_frames"
    by (simp add: ear_frames_def uncompensated_def)
  note w = smoothed_ratios [OF h]
  have two: "Suc 1 = 2" by simp
  from w u have
    "snd (fst (ear_run ear_frames init_eye_tracker) ! 1) =
       mean (trailing 8 (take (Suc 1) (map fst (fst (ear_run ear_frames init_eye_tracker)))))"
    "snd (fst (ear_run ear_frames init_eye_tracker) ! 1) \<le> 1"
    "snd (fst (mar_run mouth_frames init_yawn_detector) ! 1) =
       mean (trailing 10 (take (Suc 1) (map fst (fst (mar_run mouth_frames init_yawn_detector)))))"
    "0 \<le> snd (fst (mar_run mouth_frames init_yawn_detector) ! 1)"
    by blast+
  then show ?thesis
    unfolding two using ear_frames_run mouth_frames_run by blast
qed

text \<open>
  Claim C6, as the code has it.  Neither extractor has an error value.  When a mouth
  landmark is missing (at most 308 points) \<^const>\<open>calculate_mar\<close> returns the last
  smoothed value and leaves the detector unchanged.  When an eye landmark is missing the
  eye's ratio is the default 0.25 (the left eye needs 161 points, the right 388), the
  sample built from it is appended to the history, and \<^const>\<open>calculate_ear\<close> returns
  the new mean: with both eyes missing, the mean of the history extended by 0.25.
\<close>

theorem missing_landmarks:
  "(length lm \<le> 308 \<longrightarrow> calculate_mar lm yd = (yd_last_mar yd, yd))
   \<and> (length lm \<le> 160 \<longrightarrow> calculate_single_eye_ear tr lm left_eye_points = 25 / 100)
   \<and> (length lm \<le> 387 \<longrightarrow> calculate_single_eye_ear tr lm right_eye_points = 25 / 100)
   \<and> (length lm \<le> 387 \<longrightarrow>
        raw_ear tr lm None = (calculate_single_eye_ear tr lm left_eye_points + 25 / 100) / 2)
   \<and> (length lm \<le> 160 \<longrightarrow>
        calculate_ear lm None tr =
          (mean (push_history 8 (ear_history tr) (25 / 100)),
           tr\<lparr>ear_history := push_history 8 (ear_history tr) (25 / 100),
              et_last_ear := mean (push_history 8 (ear_history tr) (25 / 100))\<rparr>))"
proof -
  have l: "length lm \<le> 160 \<longrightarrow> calculate_single_eye_ear tr lm left_eye_points = 25 / 100"
    by (simp add: calculate_single_eye_ear_def left_eye_missing)
  have r: "length lm \<le> 387 \<longrightarrow> calculate_single_eye_ear tr lm right_eye_points = 25 / 100"
    by (simp add: calculate_single_eye_ear_def right_eye_missing)
  have m: "length lm \<le> 308 \<longrightarrow> calculate_mar lm yd = (yd_last_mar yd, yd)"
    by (simp add: calculate_mar_def mouth_missing)
  have b: "length lm \<le> 387 \<longrightarrow>
        raw_ear tr lm None = (calculate_single_eye_ear tr lm left_eye_points + 25 / 100) / 2"
  proof
    assume "length lm \<le> 387"
    with r have "calculate_single_eye_ear tr lm right_eye_points = 25 / 100" by blast
    then show "raw_ear tr lm None =
        (calculate_single_eye_ear tr lm left_eye_points + 25 / 100) / 2"
      by (simp add: raw_ear_def)
  qed
  have c: "length lm \<le> 160 \<longrightarrow>
        calculate_ear lm None tr =
          (mean (push_history 8 (ear_history tr) (25 / 100)),
           tr\<lparr>ear_history := push_history 8 (ear_history tr) (25 / 100),
              et_last_ear := mean (push_history 8 (ear_history tr) (25 / 100))\<rparr>)"
  proof
    assume h: "length lm \<le> 160"
    with l have "calculate_single_eye_ear tr lm left_eye_points = 25 / 100" by blast
    moreover from h r have "calculate_single_eye_ear tr lm right_eye_points = 25 / 100"
      by simp
    ultimately have raw: "raw_ear tr lm None = 25 / 100"
      by (simp add: raw_ear_def)
    show "calculate_ear lm None tr =
          (mean (push_history 8 (ear_history tr) (25 / 100)),
           tr\<lparr>ear_history := push_history 8 (ear_history tr) (25 / 100),
              et_last_ear := mean (push_history 8 (ear_history tr) (25 / 100))\<rparr>)"
      unfolding calculate_ear_eq raw ..
  qed
  from l r m b c show ?thesis by blast
qed

text \<open>
  Claim C6 as stated fails for the eyes: on a fresh tracker, whose last value is 0.3, a
  frame without landmarks returns 0.25 and makes it the last value.
\<close>

theorem missing_eye_landmarks_change_ear:
  "collect_points [] left_eye_points = None
   \<and> collect_points [] right_eye_points = None
   \<and> et_last_ear init_eye_tracker = 3 / 10
   \<and> fst (calculate_ear [] None init_eye_tracker) = 1 / 4
   \<and> et_last_ear (snd (calculate_ear [] None init_eye_tracker)) = 1 / 4"
  by (simp add: calculate_ear_eq no_landmarks_raw_ear init_eye_tracker_def push_history_def
      mean_def left_eye_points_def right_eye_points_def)

text \<open>
  A frame without any landmark on fresh extractors.
\<close>

theorem missing_landmarks_witness:
  "calculate_mar [] init_yawn_detector = (0, init_yawn_detector)
   \<and> calculate_single_eye_ear init_eye_tracker [] left_eye_points = 1 / 4
   \<and> calculate_single_eye_ear init_eye_tracker [] right_eye_points = 1 / 4
   \<and> fst (calculate_ear [] None init_eye_tracker) = 1 / 4"
proof -
  note w = missing_landmarks [of "[]" init_yawn_detector init_eye_tracker]
  have y: "yd_last_mar init_yawn_detector = 0" by (simp add: init_yawn_detector_def)
  from w have "calculate_mar [] init_yawn_detector = (yd_last_mar init_yawn_detector, init_yawn_detector)"
    "calculate_single_eye_ear init_eye_tracker [] left_eye_points = 25 / 100"
    "calculate_single_eye_ear init_eye_tracker [] right_eye_points = 25 / 100"
    "fst (calculate_ear [] None init_eye_tracker) =
       mean (push_history 8 (ear_history init_eye_tracker) (25 / 100))"
    by simp_all
  then show ?thesis
    by (simp add: y init_eye_tracker_def push_history_def mean_def)
qed

section \<open>Inactivity tracker: one window and one escalation per run\<close>

lemma speak_fields [simp]:
  "inactive_start_time (speak s m) = inactive_start_time m"
  "emergency_triggered (speak s m) = emergency_triggered m"
  "inactivity_threshold (speak s m) = inactivity_threshold m"
  "emergency (speak s m) = emergency m"
  "activity_logger (speak s m) = activity_logger m"
  "current_status (speak s m) = current_status m"
  "last_ear (speak s m) = last_ear m"
  "last_mar (speak s m) = last_mar m"
  "detection_active (speak s m) = detection_active m"
  by (simp_all add: speak_def)

lemma emergencies_speak [simp]: "emergencies (speak s m) = emergencies m"
  by (simp add: emergencies_def)

lemma emergencies_flag [simp]:
  "emergencies (m\<lparr>emergency_triggered := b\<rparr>) = emergencies m"
  "emergencies (m\<lparr>inactive_start_time := t\<rparr>) = emergencies m"
  by (simp_all add: emergencies_def)








section \<open>Return to the active status\<close>

lemma update_status_fields [simp]:
  "current_status (update_status now st m) = st"
  "inactive_start_time (update_status now st m) = inactive_start_time m"
  "emergency_triggered (update_status now st m) = emergency_triggered m"
  "emergency (update_status now st m) = emergency m"
  "last_ear (update_status now st m) = last_ear m"
  "last_mar (update_status now st m) = last_mar m"
  "detection_active (update_status now st m) = detection_active m"
  by (simp_all add: update_status_def)

lemma log_status_change_rows:
  assumes "last_inactive_start lg = None"
  shows "log_rows (log_status_change old new ear mar now lg) =
           log_rows lg @
             [\<lparr>row_status = new, row_description = Status_Changed old new, row_ear = ear,
               row_mar = mar, row_inactive_duration = None\<rparr>]"
  using assms by (simp add: log_status_change_def log_event_def Let_def)

lemma update_status_rows:
  assumes "st \<noteq> current_status m" and "last_inactive_start (activity_logger m) = None"
  shows "log_rows (activity_logger (update_status now st m)) =
           log_rows (activity_logger m) @
             [\<lparr>row_status = st, row_description = Status_Changed (current_status m) st,
               row_ear = last_ear m, row_mar = last_mar m, row_inactive_duration = None\<rparr>]"
  using assms by (simp add: update_status_def log_status_change_rows)

lemma reset_fields [simp]:
  "inactive_start_time (reset_inactivity_tracking now m) = None"
  "emergency_triggered (reset_inactivity_tracking now m) = False"
  "is_emergency_active (emergency (reset_inactivity_tracking now m)) = False"
  "current_status (reset_inactivity_tracking now m) = current_status m"
  "last_ear (reset_inactivity_tracking now m) = last_ear m"
  "last_mar (reset_inactivity_tracking now m) = last_mar m"
  "detection_active (reset_inactivity_tracking now m) = detection_active m"
  by (simp_all add: reset_inactivity_tracking_def Let_def stop_emergency_def
      split: option.splits)

lemma reset_emergency:
  "emergency (reset_inactivity_tracking now m) = stop_emergency (emergency m)"
  by (simp add: reset_inactivity_tracking_def Let_def stop_emergency_def speak_def
      split: option.splits)

lemma reset_rows:
  assumes "inactive_start_time m = Some t0" and "current_status m \<noteq> ''Active''"
  shows "log_rows (activity_logger (reset_inactivity_tracking now m)) =
           log_rows (activity_logger m) @
             [\<lparr>row_status = ''Active'', row_description = Returned_To_Active (now - t0),
               row_ear = last_ear m, row_mar = last_mar m,
               row_inactive_duration = Some (now - t0)\<rparr>]"
    and "last_inactive_start (activity_logger (reset_inactivity_tracking now m)) = None"
  using assms
  by (simp_all add: reset_inactivity_tracking_def Let_def
      log_inactive_to_active_transition_def log_event_def)

lemma handle_fields [simp]:
  "current_status (handle_inactivity_tracking alive rn st t m) = current_status m"
  "detection_active (handle_inactivity_tracking alive rn st t m) = detection_active m"
  by (simp_all add: handle_inactivity_tracking_def Let_def monitor_trigger_emergency_def)

lemma handle_nonactive_opens:
  "st \<noteq> ''Active'' \<Longrightarrow> inactive_start_time (handle_inactivity_tracking alive rn st t m) \<noteq> None"
  by (simp add: handle_inactivity_tracking_def Let_def monitor_trigger_emergency_def)

lemma handle_active:
  "handle_inactivity_tracking alive rn ''Active'' t m = reset_inactivity_tracking rn m"
  by (simp add: handle_inactivity_tracking_def)

lemma determine_fields [simp]:
  "current_status (snd (determine_status_simple ear mar m)) = current_status m"
  "inactive_start_time (snd (determine_status_simple ear mar m)) = inactive_start_time m"
  "activity_logger (snd (determine_status_simple ear mar m)) = activity_logger m"
  "last_ear (snd (determine_status_simple ear mar m)) = last_ear m"
  "last_mar (snd (determine_status_simple ear mar m)) = last_mar m"
  "detection_active (snd (determine_status_simple ear mar m)) = detection_active m"
  "emergency (snd (determine_status_simple ear mar m)) = emergency m"
  "face_presence_detector (snd (determine_status_simple ear mar m)) =
     face_presence_detector m"
  by (simp_all add: determine_status_simple_def Let_def)

text \<open>The three ways through a frame.\<close>

lemma frame_multiple:
  assumes "length (multi_face_landmarks f) > 1" and "multiple_detections f > 1"
  shows "process_frame f m =
     Inr (handle_inactivity_tracking (threads_alive f) (reset_time f) ''Multiple Faces''
            (frame_time f) (update_status (update_time f) ''Multiple Persons Detected'' m))"
  using assms by (simp add: process_frame_def check_multiple_faces_def Let_def)

lemma frame_absent:
  assumes "multi_face_landmarks f = []"
  shows "process_frame f m =
     (let r = check_face_presence (presence_time f) (Some (presence_detections f))
                (face_presence_detector m);
          m2 = handle_inactivity_tracking (threads_alive f) (reset_time f) (fst r)
                 (frame_time f) (m\<lparr>face_presence_detector := snd r\<rparr>);
          m3 = (if current_status m2 \<noteq> ''Inactive (Face Missing)''
                then speak ''Face Not Detected'' m2 else m2)
      in Inr (update_status (update_time f) (fst r) m3))"
  using assms by (simp add: process_frame_def Let_def split_beta)

lemma frame_single:
  assumes "multi_face_landmarks f = lm # rest"
    and "\<not> (rest \<noteq> [] \<and> multiple_detections f > 1)"
  shows "process_frame f m =
     (if lm = [] then Inl ValueError
      else
        (let e = calculate_ear lm None (eye_tracker m);
             m1 = m\<lparr>eye_tracker := snd e, last_ear := fst e\<rparr>;
             y = calculate_mar lm (yawn_detector m1);
             m2 = m1\<lparr>yawn_detector := snd y, last_mar := fst y\<rparr>;
             d = determine_status_simple (fst e) (fst y) m2;
             m4 = (if fst d = ''Active''
                   then reset_inactivity_tracking (reset_time f) (snd d)
                   else handle_inactivity_tracking (threads_alive f) (reset_time f) (fst d)
                          (frame_time f) (snd d))
         in Inr (update_status (update_time f) (fst d) m4)))"
  using assms
  by (cases rest) (auto simp: process_frame_def check_multiple_faces_def Let_def split_beta)

lemma frame_cases:
  obtains (absent) "multi_face_landmarks f = []"
  | (multiple) "length (multi_face_landmarks f) > 1" and "multiple_detections f > 1"
  | (single) lm rest where "multi_face_landmarks f = lm # rest"
      and "\<not> (rest \<noteq> [] \<and> multiple_detections f > 1)"
proof (cases "multi_face_landmarks f")
  case Nil
  then show ?thesis by (rule absent)
next
  case (Cons lm rest)
  show ?thesis
  proof (cases "rest \<noteq> [] \<and> multiple_detections f > 1")
    case True
    with Cons show ?thesis by (intro multiple) auto
  next
    case False
    with Cons show ?thesis by (rule single)
  qed
qed

text \<open>After any frame, a monitor whose status is "Active" has its window closed.\<close>

lemma frame_closes_window:
  assumes "process_frame f m = Inr m'" and "current_status m' = ''Active''"
  shows "inactive_start_time m' = None"
proof (cases f rule: frame_cases)
  case absent
  from assms show ?thesis
    unfolding frame_absent [OF absent] Let_def
    by (auto simp: handle_active)
next
  case multiple
  from assms show ?thesis
    unfolding frame_multiple [OF multiple] by auto
next
  case (single lm rest)
  from assms show ?thesis
    unfolding frame_single [OF single] Let_def
    by (auto split: if_splits)
qed

lemma frame_keeps_detection:
  assumes "process_frame f m = Inr m'"
  shows "detection_active m' = detection_active m"
proof (cases f rule: frame_cases)
  case absent
  from assms show ?thesis
    unfolding frame_absent [OF absent] Let_def by (auto split: if_splits)
next
  case multiple
  from assms show ?thesis
    unfolding frame_multiple [OF multiple] by auto
next
  case (single lm rest)
  from assms show ?thesis
    unfolding frame_single [OF single] Let_def
    by (auto split: if_splits)
qed

lemma reachable_window_status:
  assumes "reachable m" and "current_status m = ''Active''"
  shows "inactive_start_time m = None"
  using assms
proof (induction rule: reachable.induct)
  case (reach_init now presence_now mixer_ok tts_ok sound_ok)
  then show ?case by (simp add: init_monitor_def)
next
  case (reach_start m camera_ok opened_now now presence_now)
  then show ?case
    by (cases camera_ok) (simp_all add: start_detection_def Let_def speak_def)
next
  case (reach_stop m now)
  then show ?case by (simp add: stop_detection_def Let_def)
next
  case (reach_frame m f m')
  then show ?case by (simp add: frame_closes_window)
next
  case (reach_flash m)
  then show ?case by (simp add: flash_tick_def)
next
  case (reach_open m camera_ok)
  then show ?case by (auto simp: open_camera_def split: if_splits)
next
  case (reach_close m has_camera)
  then show ?case by (auto simp: close_camera_def split: if_splits)
next
  case (reach_exit m camera_open)
  then show ?case
    by (auto simp: close_application_def Let_def speak_def split: if_splits)
qed

lemma back_to_active:
  assumes "inactive_start_time ma = Some t0" and "current_status ma \<noteq> ''Active''"
    and "m3 = reset_inactivity_tracking rt ma \<or> m3 = speak s (reset_inactivity_tracking rt ma)"
  shows "inactive_start_time (update_status ut ''Active'' m3) = None
       \<and> \<not> emergency_triggered (update_status ut ''Active'' m3)
       \<and> \<not> is_emergency_active (emergency (update_status ut ''Active'' m3))
       \<and> emergency (update_status ut ''Active'' m3) = stop_emergency (emergency ma)
       \<and> last_ear (update_status ut ''Active'' m3) = last_ear ma
       \<and> last_mar (update_status ut ''Active'' m3) = last_mar ma
       \<and> log_rows (activity_logger (update_status ut ''Active'' m3)) =
           log_rows (activity_logger ma) @
             [\<lparr>row_status = ''Active'', row_description = Returned_To_Active (rt - t0),
               row_ear = last_ear ma, row_mar = last_mar ma,
               row_inactive_duration = Some (rt - t0)\<rparr>,
              \<lparr>row_status = ''Active'',
               row_description = Status_Changed (current_status ma) ''Active'',
               row_ear = last_ear ma, row_mar = last_mar ma,
               row_inactive_duration = None\<rparr>]"
proof -
  let ?r = "reset_inactivity_tracking rt ma"
  note rows = reset_rows [OF assms(1,2), of rt]
  have st: "''Active'' \<noteq> current_status m3" using assms(2,3) by auto
  have li: "last_inactive_start (activity_logger m3) = None" using assms(3) rows(2) by auto
  have r3: "log_rows (activity_logger m3) = log_rows (activity_logger ?r)"
    "last_ear m3 = last_ear ma" "last_mar m3 = last_mar ma"
    "current_status m3 = current_status ma"
    "inactive_start_time m3 = None" "\<not> emergency_triggered m3"
    "\<not> is_emergency_active (emergency m3)"
    "emergency m3 = stop_emergency (emergency ma)"
    using assms(3) by (auto simp: reset_emergency stop_emergency_inactive)
  show ?thesis
    using update_status_rows [OF st li, of ut] rows(1) r3 by simp
qed

text \<open>A frame whose status is "Active", processed while the window is open and the
  status shown is not "Active".\<close>

lemma frame_back_to_active:
  assumes "current_status m \<noteq> ''Active''" and "inactive_start_time m = Some t0"
    and "process_frame f m = Inr m'" and "current_status m' = ''Active''"
  shows "inactive_start_time m' = None
       \<and> \<not> emergency_triggered m'
       \<and> \<not> is_emergency_active (emergency m')
       \<and> emergency m' = stop_emergency (emergency m)
       \<and> log_rows (activity_logger m') =
           log_rows (activity_logger m) @
             [\<lparr>row_status = ''Active'',
               row_description = Returned_To_Active (reset_time f - t0),
               row_ear = last_ear m', row_mar = last_mar m',
               row_inactive_duration = Some (reset_time f - t0)\<rparr>,
              \<lparr>row_status = ''Active'',
               row_description = Status_Changed (current_status m) ''Active'',
               row_ear = last_ear m', row_mar = last_mar m',
               row_inactive_duration = None\<rparr>]
       \<and> (case multi_face_landmarks f of
             [] \<Rightarrow> last_ear m' = last_ear m \<and> last_mar m' = last_mar m
           | lm # _ \<Rightarrow> last_ear m' = fst (calculate_ear lm None (eye_tracker m))
                      \<and> last_mar m' = fst (calculate_mar lm (yawn_detector m)))"
proof -
  note ns = assms(1)
  show ?thesis
  proof (cases f rule: frame_cases)
    case multiple
    from assms(3,4) show ?thesis
      unfolding frame_multiple [OF multiple] by auto
  next
    case absent
    let ?r = "check_face_presence (presence_time f) (Some (presence_detections f))
                (face_presence_detector m)"
    let ?ma = "m\<lparr>face_presence_detector := snd ?r\<rparr>"
    let ?m2 = "handle_inactivity_tracking (threads_alive f) (reset_time f) (fst ?r)
                 (frame_time f) ?ma"
    let ?m3 = "if current_status ?m2 \<noteq> ''Inactive (Face Missing)''
               then speak ''Face Not Detected'' ?m2 else ?m2"
    from assms(3) have m': "m' = update_status (update_time f) (fst ?r) ?m3"
      unfolding frame_absent [OF absent] Let_def by simp
    with assms(4) have st: "fst ?r = ''Active''" by simp
    have m2: "?m2 = reset_inactivity_tracking (reset_time f) ?ma"
      unfolding st by (rule handle_active)
    have m3: "?m3 = reset_inactivity_tracking (reset_time f) ?ma
              \<or> ?m3 = speak ''Face Not Detected'' (reset_inactivity_tracking (reset_time f) ?ma)"
      unfolding m2 by simp
    have a: "inactive_start_time ?ma = Some t0" "current_status ?ma \<noteq> ''Active''"
      using assms(2) ns by simp_all
    from back_to_active [OF a m3, of "update_time f"] show ?thesis
      unfolding m' st by (simp add: absent stop_emergency_inactive)
  next
    case (single lm rest)
    let ?e = "calculate_ear lm None (eye_tracker m)"
    let ?m1 = "m\<lparr>eye_tracker := snd ?e, last_ear := fst ?e\<rparr>"
    let ?y = "calculate_mar lm (yawn_detector ?m1)"
    let ?m2 = "?m1\<lparr>yawn_detector := snd ?y, last_mar := fst ?y\<rparr>"
    let ?d = "determine_status_simple (fst ?e) (fst ?y) ?m2"
    let ?m4 = "if fst ?d = ''Active''
               then reset_inactivity_tracking (reset_time f) (snd ?d)
               else handle_inactivity_tracking (threads_alive f) (reset_time f) (fst ?d)
                      (frame_time f) (snd ?d)"
    from assms(3) have lm: "lm \<noteq> []"
      unfolding frame_single [OF single] by (auto split: if_splits)
    with assms(3) have m': "m' = update_status (update_time f) (fst ?d) ?m4"
      unfolding frame_single [OF single] Let_def by simp
    with assms(4) have st: "fst ?d = ''Active''" by simp
    have m4: "?m4 = reset_inactivity_tracking (reset_time f) (snd ?d)
              \<or> ?m4 = speak [] (reset_inactivity_tracking (reset_time f) (snd ?d))"
      unfolding st by simp
    have a: "inactive_start_time (snd ?d) = Some t0" "current_status (snd ?d) \<noteq> ''Active''"
      using assms(2) ns by simp_all
    have y: "yawn_detector ?m1 = yawn_detector m" by simp
    from back_to_active [OF a m4, of "update_time f"] show ?thesis
      unfolding m' st by (simp add: single stop_emergency_inactive)
  qed
qed

text \<open>
  Claim C2.  Let the monitor be in a state it can reach, with the inactivity window
  open since \<open>t0\<close>, and let a frame be processed whose status is "Active" (the status
  the monitor shows after the frame).  Within that frame the window is closed, the flag
  \<open>emergency_triggered\<close> is cleared, the escalator is the one the frame found with
  \<^const>\<open>stop_emergency\<close> applied (so it is not active), and the log has received
  exactly two rows: the "returned to active" row, carrying the inactive
  duration (the clock read of the reset minus \<open>t0\<close>) and the current EAR and MAR, and
  the row of the status change.  The current EAR and MAR are the values computed from
  this frame's landmarks when the frame shows a face, and the last computed ones when
  it shows none.
\<close>

theorem returned_to_active:
  assumes "reachable m" and "inactive_start_time m = Some t0"
    and "process_frame f m = Inr m'" and "current_status m' = ''Active''"
  shows "inactive_start_time m' = None
       \<and> \<not> emergency_triggered m'
       \<and> \<not> is_emergency_active (emergency m')
       \<and> emergency m' = stop_emergency (emergency m)
       \<and> log_rows (activity_logger m') =
           log_rows (activity_logger m) @
             [\<lparr>row_status = ''Active'',
               row_description = Returned_To_Active (reset_time f - t0),
               row_ear = last_ear m', row_mar = last_mar m',
               row_inactive_duration = Some (reset_time f - t0)\<rparr>,
              \<lparr>row_status = ''Active'',
               row_description = Status_Changed (current_status m) ''Active'',
               row_ear = last_ear m', row_mar = last_mar m',
               row_inactive_duration = None\<rparr>]
       \<and> (case multi_face_landmarks f of
             [] \<Rightarrow> last_ear m' = last_ear m \<and> last_mar m' = last_mar m
           | lm # _ \<Rightarrow> last_ear m' = fst (calculate_ear lm None (eye_tracker m))
                      \<and> last_mar m' = fst (calculate_mar lm (yawn_detector m)))"
proof -
  have "current_status m \<noteq> ''Active''"
    using reachable_window_status [OF assms(1)] assms(2) by auto
  then show ?thesis
    using assms(2-4) by (rule frame_back_to_active)
qed

lemma run_single_frame: "process_frame f m = Inr m' \<Longrightarrow> run_frames [f] m = m'"
  by simp

lemma reachable_run_frames:
  assumes "reachable m" and "detection_active m"
  shows "reachable (run_frames fs m) \<and> detection_active (run_frames fs m)"
  using assms
proof (induction fs arbitrary: m)
  case Nil
  then show ?case by simp
next
  case (Cons f fs)
  show ?case
  proof (cases "process_frame f m")
    case (Inl e)
    with Cons show ?thesis by simp
  next
    case (Inr m')
    from Cons.prems Inr have "reachable m'" by (rule reach_frame)
    moreover from Inr Cons.prems(2) have "detection_active m'"
      by (simp add: frame_keeps_detection)
    ultimately show ?thesis using Cons.IH Inr by simp
  qed
qed

lemma determine_active:
  assumes "\<not> ear < 22 / 100" and "\<not> mar > 6 / 10"
    and "0 < drowsy_threshold m" and "0 < yawn_threshold m"
  shows "fst (determine_status_simple ear mar m) = ''Active''"
  using assms by (simp add: determine_status_simple_def Let_def)

lemma started_reachable: "reachable started_monitor \<and> detection_active started_monitor"
proof -
  have "reachable fresh_monitor"
    unfolding fresh_monitor_def by (rule reach_init)
  then have "reachable started_monitor"
    unfolding started_monitor_def by (rule reach_start)
  moreover have "detection_active started_monitor"
    by (simp add: started_monitor_def start_detection_def Let_def speak_def)
  ultimately show ?thesis by simp
qed

lemma crowded_fields:
  "inactive_start_time crowded_monitor = Some 1"
  "emergency_triggered crowded_monitor"
  "is_emergency_active (emergency crowded_monitor)"
  "current_status crowded_monitor = ''Multiple Persons Detected''"
  "eye_tracker crowded_monitor = init_eye_tracker"
  "yawn_detector crowded_monitor = init_yawn_detector"
  "drowsy_threshold crowded_monitor = 5"
  "yawn_threshold crowded_monitor = 3"
  "emergency crowded_monitor =
     \<lparr>is_emergency_active = True, flash_timer = True, flash_count = 0,
      siren_thread = True, tts_thread = True, siren_sound = True,
      ew_tts_engine = True, pygame_initialized = True, emitted = []\<rparr>"
  by (simp_all add: crowded_monitor_def started_monitor_def crowd_frame_def frame_multiple
      fresh_monitor_def init_monitor_def init_emergency_wakeup_def
      init_activity_logger_def start_detection_def speak_def reset_presence_def
      log_detection_session_def reset_inactive_tracking_def log_event_def update_status_def
      log_status_change_def is_inactive_status_def handle_inactivity_tracking_def
      monitor_trigger_emergency_def trigger_emergency_def play_siren_def
      start_screen_flash_def speak_wake_up_message_def Let_def)

lemma attentive_values:
  "fst (calculate_ear attentive_face None init_eye_tracker) = 3 / 10"
  "fst (calculate_mar attentive_face init_yawn_detector) = 1 / 2"
  by (simp_all add: calculate_ear_eq calculate_mar_eq attentive_face_length
      attentive_raw_ear attentive_mar_sample init_eye_tracker_def init_yawn_detector_def
      push_history_def mean_def)

lemma face_frame_single:
  "process_frame (face_frame t) m =
     (let e = calculate_ear attentive_face None (eye_tracker m);
          m1 = m\<lparr>eye_tracker := snd e, last_ear := fst e\<rparr>;
          y = calculate_mar attentive_face (yawn_detector m1);
          m2 = m1\<lparr>yawn_detector := snd y, last_mar := fst y\<rparr>;
          d = determine_status_simple (fst e) (fst y) m2;
          m4 = (if fst d = ''Active''
                then reset_inactivity_tracking t (snd d)
                else handle_inactivity_tracking (True, True) t (fst d) t (snd d))
      in Inr (update_status t (fst d) m4))"
proof -
  have ne: "attentive_face \<noteq> []" using attentive_face_length by auto
  have "multi_face_landmarks (face_frame t) = attentive_face # []"
    "\<not> ([] \<noteq> ([] :: point list list) \<and> multiple_detections (face_frame t) > 1)"
    by (simp_all add: face_frame_def)
  from frame_single [OF this, of m] ne
  have "process_frame (face_frame t) m =
     (let e = calculate_ear attentive_face None (eye_tracker m);
             m1 = m\<lparr>eye_tracker := snd e, last_ear := fst e\<rparr>;
             y = calculate_mar attentive_face (yawn_detector m1);
             m2 = m1\<lparr>yawn_detector := snd y, last_mar := fst y\<rparr>;
             d = determine_status_simple (fst e) (fst y) m2;
             m4 = (if fst d = ''Active''
                   then reset_inactivity_tracking (reset_time (face_frame t)) (snd d)
                   else handle_inactivity_tracking (threads_alive (face_frame t))
                          (reset_time (face_frame t)) (fst d)
                          (frame_time (face_frame t)) (snd d))
         in Inr (update_status (update_time (face_frame t)) (fst d) m4))"
    by simp
  moreover have "reset_time (face_frame t) = t" "threads_alive (face_frame t) = (True, True)"
    "frame_time (face_frame t) = t" "update_time (face_frame t) = t"
    by (simp_all add: face_frame_def)
  ultimately show ?thesis by (simp add: Let_def)
qed

lemma flashed_fields:
  "inactive_start_time flashed_monitor = Some 1"
  "emergency_triggered flashed_monitor"
  "current_status flashed_monitor = ''Multiple Persons Detected''"
  "eye_tracker flashed_monitor = init_eye_tracker"
  "yawn_detector flashed_monitor = init_yawn_detector"
  "drowsy_threshold flashed_monitor = 5"
  "yawn_threshold flashed_monitor = 3"
  "log_rows (activity_logger flashed_monitor) = log_rows (activity_logger crowded_monitor)"
  "emergency flashed_monitor =
     \<lparr>is_emergency_active = True, flash_timer = True, flash_count = 2,
      siren_thread = True, tts_thread = True, siren_sound = True,
      ew_tts_engine = True, pygame_initialized = True, emitted = [''red'', ''blue'']\<rparr>"
  by (simp_all add: flashed_monitor_def flash_tick_def flash_screen_def crowded_fields)

lemma flashed_reachable: "reachable flashed_monitor"
proof -
  have "reachable crowded_monitor"
    unfolding crowded_monitor_def
    using started_reachable reachable_run_frames by blast
  moreover have "flash_timer (emergency crowded_monitor)"
    by (simp add: crowded_fields)
  ultimately have r1: "reachable (flash_tick crowded_monitor)"
    by (rule reach_flash)
  have "flash_timer (emergency (flash_tick crowded_monitor))"
    by (simp add: flash_tick_def flash_screen_def crowded_fields)
  with r1 show ?thesis
    unfolding flashed_monitor_def by (rule reach_flash)
qed

lemma returned_frame:
  "process_frame (face_frame 8) flashed_monitor = Inr returned_monitor
   \<and> current_status returned_monitor = ''Active''"
proof -
  let ?e = "calculate_ear attentive_face None (eye_tracker flashed_monitor)"
  let ?m1 = "flashed_monitor\<lparr>eye_tracker := snd ?e, last_ear := fst ?e\<rparr>"
  let ?y = "calculate_mar attentive_face (yawn_detector ?m1)"
  let ?m2 = "?m1\<lparr>yawn_detector := snd ?y, last_mar := fst ?y\<rparr>"
  let ?d = "determine_status_simple (fst ?e) (fst ?y) ?m2"
  let ?m' = "update_status 8 (fst ?d) (reset_inactivity_tracking 8 (snd ?d))"
  have d: "fst ?d = ''Active''"
    by (rule determine_active) (simp_all add: flashed_fields attentive_values)
  have pf: "process_frame (face_frame 8) flashed_monitor = Inr ?m'"
    using d unfolding face_frame_single Let_def by simp
  then have rm: "returned_monitor = ?m'"
    unfolding returned_monitor_def by simp
  have cs: "current_status ?m' = ''Active''"
    using d by simp
  from pf cs show ?thesis
    unfolding rm by (rule conjI)
qed

text \<open>
  The specification's scenario: two persons in view from second 1 to second 7 (the
  escalation starts at second 7 and its timer flashes twice), then one attentive face at
  second 8, with EAR 0.3 and MAR 0.5, seven seconds after the window opened.
\<close>

theorem returned_to_active_witness:
  "reachable flashed_monitor
   \<and> inactive_start_time flashed_monitor = Some 1
   \<and> emergency_triggered flashed_monitor
   \<and> is_emergency_active (emergency flashed_monitor)
   \<and> flash_count (emergency flashed_monitor) = 2
   \<and> process_frame (face_frame 8) flashed_monitor = Inr returned_monitor
   \<and> current_status returned_monitor = ''Active''
   \<and> inactive_start_time returned_monitor = None
   \<and> \<not> emergency_triggered returned_monitor
   \<and> emergency returned_monitor =
       \<lparr>is_emergency_active = False, flash_timer = False, flash_count = 2,
        siren_thread = True, tts_thread = True, siren_sound = True,
        ew_tts_engine = True, pygame_initialized = True,
        emitted = [''red'', ''blue'', ''normal'']\<rparr>
   \<and> last_ear returned_monitor = 3 / 10
   \<and> last_mar returned_monitor = 1 / 2
   \<and> log_rows (activity_logger returned_monitor) =
       log_rows (activity_logger flashed_monitor) @
         [\<lparr>row_status = ''Active'', row_description = Returned_To_Active 7,
           row_ear = 3 / 10, row_mar = 1 / 2, row_inactive_duration = Some 7\<rparr>,
          \<lparr>row_status = ''Active'',
           row_description = Status_Changed ''Multiple Persons Detected'' ''Active'',
           row_ear = 3 / 10, row_mar = 1 / 2, row_inactive_duration = None\<rparr>]"
proof -
  note w = returned_to_active [OF flashed_reachable flashed_fields(1)
      returned_frame [THEN conjunct1] returned_frame [THEN conjunct2]]
  have f: "multi_face_landmarks (face_frame 8) = [attentive_face]" "reset_time (face_frame 8) = 8"
    by (simp_all add: face_frame_def)
  from w have v: "last_ear returned_monitor = 3 / 10" "last_mar returned_monitor = 1 / 2"
    unfolding f by (simp_all add: flashed_fields attentive_values)
  from w have e: "emergency returned_monitor =
       \<lparr>is_emergency_active = False, flash_timer = False, flash_count = 2,
        siren_thread = True, tts_thread = True, siren_sound = True,
        ew_tts_engine = True, pygame_initialized = True,
        emitted = [''red'', ''blue'', ''normal'']\<rparr>"
    by (simp add: flashed_fields stop_emergency_def)
  from w flashed_reachable returned_frame show ?thesis
    unfolding f v e by (simp add: flashed_fields)
qed

section \<open>Face presence inside the frame loop\<close>

lemma frame_fields:
  "face_presence_detector (update_status now st m) = face_presence_detector m"
  "face_presence_detector (speak s m) = face_presence_detector m"
  "face_presence_detector (reset_inactivity_tracking now m) = face_presence_detector m"
  "face_presence_detector (handle_inactivity_tracking alive rn st t m) =
     face_presence_detector m"
  by (simp_all add: update_status_def handle_inactivity_tracking_def
      reset_inactivity_tracking_def monitor_trigger_emergency_def speak_def Let_def
      split: option.splits)

lemma absent_frame_run:
  "process_frame (absent_frame t) m = Inr (run_frames [absent_frame t] m)"
  "face_presence_detector (run_frames [absent_frame t] m) =
     snd (check_face_presence t (Some 0) (face_presence_detector m))"
  "current_status (run_frames [absent_frame t] m) =
     fst (check_face_presence t (Some 0) (face_presence_detector m))"
proof -
  let ?r = "check_face_presence t (Some 0) (face_presence_detector m)"
  let ?m2 = "handle_inactivity_tracking (False, False) t (fst ?r) t
               (m\<lparr>face_presence_detector := snd ?r\<rparr>)"
  let ?x = "update_status t (fst ?r)
              (if current_status ?m2 \<noteq> ''Inactive (Face Missing)''
               then speak ''Face Not Detected'' ?m2 else ?m2)"
  have a: "multi_face_landmarks (absent_frame t) = []"
    by (simp add: absent_frame_def)
  have x: "process_frame (absent_frame t) m = Inr ?x"
    unfolding frame_absent [OF a] Let_def by (simp add: absent_frame_def)
  then have r: "run_frames [absent_frame t] m = ?x" by simp
  show "process_frame (absent_frame t) m = Inr (run_frames [absent_frame t] m)"
    unfolding r by (rule x)
  show "face_presence_detector (run_frames [absent_frame t] m) = snd ?r"
    unfolding r by (simp add: frame_fields)
  show "current_status (run_frames [absent_frame t] m) = fst ?r"
    unfolding r by simp
qed

text \<open>A frame that shows a face leaves the presence detector as it was.\<close>

lemma face_frame_run:
  "process_frame (face_frame t) m = Inr (run_frames [face_frame t] m)"
  "face_presence_detector (run_frames [face_frame t] m) = face_presence_detector m"
proof -
  let ?e = "calculate_ear attentive_face None (eye_tracker m)"
  let ?m1 = "m\<lparr>eye_tracker := snd ?e, last_ear := fst ?e\<rparr>"
  let ?y = "calculate_mar attentive_face (yawn_detector ?m1)"
  let ?m2 = "?m1\<lparr>yawn_detector := snd ?y, last_mar := fst ?y\<rparr>"
  let ?d = "determine_status_simple (fst ?e) (fst ?y) ?m2"
  let ?x = "update_status t (fst ?d)
              (if fst ?d = ''Active''
               then reset_inactivity_tracking t (snd ?d)
               else handle_inactivity_tracking (True, True) t (fst ?d) t (snd ?d))"
  have x: "process_frame (face_frame t) m = Inr ?x"
    unfolding face_frame_single Let_def ..
  then have r: "run_frames [face_frame t] m = ?x" by simp
  show "process_frame (face_frame t) m = Inr (run_frames [face_frame t] m)"
    unfolding r by (rule x)
  show "face_presence_detector (run_frames [face_frame t] m) = face_presence_detector m"
    unfolding r by (simp add: frame_fields)
qed

lemma started_detector:
  "face_presence_detector started_monitor =
     \<lparr>short_absence_threshold = 3, long_absence_threshold = 10,
      face_lost_time = None, last_face_detected_time = 0\<rparr>"
  by (simp add: started_monitor_def fresh_monitor_def start_detection_def init_monitor_def
      init_face_presence_def reset_presence_def speak_def Let_def)

lemma away_detector:
  "face_presence_detector away_monitor =
     \<lparr>short_absence_threshold = 3, long_absence_threshold = 10,
      face_lost_time = Some 1, last_face_detected_time = 0\<rparr>"
  "current_status away_monitor = ''Active''"
  by (simp_all add: away_monitor_def absent_frame_run(2,3) started_detector
      check_face_presence_def handle_no_face_def Let_def del: run_frames.simps)

text \<open>
  Claim C3 fails in the program.  The frame loop hands a frame to the presence detector
  only when the face mesh finds no face, so a frame that shows a face never reaches the
  detector's reset.  Detection starts at second 0; the face is away at second 1 (the
  timer starts, the status is "Active"), back at second 2 (the timer still holds 1,
  though the detector, had it been called, would have cleared it) and away again at
  second 62: the first frame of the new absence is "Not Awake", where an absence of 0
  seconds is "Active".
\<close>

theorem stale_absence_timer:
  "face_lost_time (face_presence_detector started_monitor) = None
   \<and> current_status away_monitor = ''Active''
   \<and> face_lost_time (face_presence_detector away_monitor) = Some 1
   \<and> process_frame (face_frame 2) away_monitor = Inr back_monitor
   \<and> face_lost_time (face_presence_detector back_monitor) = Some 1
   \<and> face_lost_time (snd (check_face_presence 2 (Some 1)
         (face_presence_detector away_monitor))) = None
   \<and> process_frame (absent_frame 62) back_monitor = Inr away_again_monitor
   \<and> current_status away_again_monitor = ''Not Awake''
   \<and> absence_status (face_presence_detector back_monitor) (62 - 62) = ''Active''"
proof -
  have b: "face_presence_detector back_monitor = face_presence_detector away_monitor"
    unfolding back_monitor_def by (rule face_frame_run(2))
  have "current_status away_again_monitor = ''Not Awake''"
    unfolding away_again_monitor_def
    by (simp add: absent_frame_run(2,3) b away_detector check_face_presence_def
        handle_no_face_def Let_def del: run_frames.simps)
  moreover have "process_frame (face_frame 2) away_monitor = Inr back_monitor"
    unfolding back_monitor_def by (rule face_frame_run(1))
  moreover have "process_frame (absent_frame 62) back_monitor = Inr away_again_monitor"
    unfolding away_again_monitor_def by (rule absent_frame_run(1))
  ultimately show ?thesis
    by (simp add: b away_detector started_detector check_face_presence_def
        absence_status_def)
qed

end
